theory Spec2Isabelle
  imports
    Complex_Main
    "HOL-Library.AList"
    "HOL-Library.Char_ord"
    "HOL-Library.List_Lexorder"
begin

section \<open>Python values, dictionaries and the object store\<close>

text \<open>
  The values that occur as chat identifiers, as attribute values of a chat and as results
  of the delivery coroutine. \<open>bool\<close> is a subclass of \<open>int\<close> in Python, so
  \<open>isinstance(True, int)\<close> holds; \<open>PNone\<close> and \<open>PTuple\<close> stand for the values that
  are neither \<open>int\<close> nor \<open>str\<close>.
\<close>

datatype pyval = PNone | PBool bool | PInt int | PStr string | PTuple "pyval list"

text \<open>Python truthiness, as tested by \<open>if\<close>, \<open>not\<close> and \<open>all\<close>.\<close>

fun truthy :: "pyval \<Rightarrow> bool" where
  "truthy PNone = False"
| "truthy (PBool b) = b"
| "truthy (PInt i) = (i \<noteq> 0)"
| "truthy (PStr s) = (s \<noteq> [])"
| "truthy (PTuple vs) = (vs \<noteq> [])"

text \<open>\<open>isinstance(x, int) or isinstance(x, str)\<close>.\<close>

fun is_scalar :: "pyval \<Rightarrow> bool" where
  "is_scalar (PBool b) = True"
| "is_scalar (PInt i) = True"
| "is_scalar (PStr s) = True"
| "is_scalar PNone = False"
| "is_scalar (PTuple vs) = False"

text \<open>
  A dictionary keeps its items in insertion order; its keys are the keyword names of the
  delivery call. A Python dictionary never holds a key twice: \<open>wf_dict\<close>.
\<close>

type_synonym pydict = "(string \<times> pyval) list"

definition wf_dict :: "pydict \<Rightarrow> bool" where
  "wf_dict d = distinct (map fst d)"

text \<open>
  The dictionaries handed in by the caller are objects that the constructor may change,
  so they live in a store and are passed by reference. The argument \<open>args\<close> is
  \<open>None\<close> or a reference to a dictionary.
\<close>

type_synonym ref = nat
type_synonym heap = "ref \<Rightarrow> pydict"

text \<open>An element of the list \<open>chats\<close>, and the argument \<open>chats\<close> itself.\<close>

datatype item = Val pyval | DictRef ref

datatype chats_arg = Obj item | Lst "item list"

text \<open>
  The exceptions, with the argument of RunningError and the messages of the others. The
  message that prints the expected and the received type is kept as a fixed text, and the
  apostrophe of the message about bot and token is written out.
\<close>

datatype exc =
    RunningError bool
  | ValueError string
  | AttributeError string
  | TypeError string
  | KeyError string
  | OtherError nat

text \<open>\<open>d.get(k)\<close>, also written \<open>d.get(k, None)\<close>.\<close>

definition dict_get :: "pydict \<Rightarrow> string \<Rightarrow> pyval" where
  "dict_get d k = (case map_of d k of None \<Rightarrow> PNone | Some v \<Rightarrow> v)"

text \<open>\<open>d.pop(k)\<close>: the value and the dictionary without the key; KeyError when absent.\<close>

definition dict_pop :: "pydict \<Rightarrow> string \<Rightarrow> exc + (pyval \<times> pydict)" where
  "dict_pop d k =
     (case map_of d k of
        None \<Rightarrow> Inl (KeyError k)
      | Some v \<Rightarrow> Inr (v, AList.delete k d))"

text \<open>
  \<open>{**d, **e}\<close>: the items of \<open>e\<close> are written into \<open>d\<close> in their order; a key that
  is already there keeps its place and takes the new value.
\<close>

definition dict_update :: "pydict \<Rightarrow> pydict \<Rightarrow> pydict" where
  "dict_update d e = fold (\<lambda>(k, v). AList.update k v) e d"

text \<open>
  \<open>{**d, **args}\<close> where \<open>args\<close> may be \<open>None\<close>: unpacking \<open>None\<close> raises TypeError.
\<close>

definition unpack_args :: "heap \<Rightarrow> ref option \<Rightarrow> pydict \<Rightarrow> exc + pydict" where
  "unpack_args h args d =
     (case args of
        None \<Rightarrow> Inl (TypeError ''NoneType object is not a mapping'')
      | Some a \<Rightarrow> Inr (dict_update d (h a)))"

section \<open>\<open>_setup_chats\<close>\<close>

fun item_is_scalar :: "item \<Rightarrow> bool" where
  "item_is_scalar (Val v) = is_scalar v"
| "item_is_scalar (DictRef r) = False"

fun item_is_dict :: "item \<Rightarrow> bool" where
  "item_is_dict (Val v) = False"
| "item_is_dict (DictRef r) = True"

text \<open>The elements of a list once its kind is known.\<close>

fun the_vals :: "item list \<Rightarrow> pyval list" where
  "the_vals [] = []"
| "the_vals (Val v # xs) = v # the_vals xs"
| "the_vals (DictRef r # xs) = the_vals xs"

fun the_refs :: "item list \<Rightarrow> ref list" where
  "the_refs [] = []"
| "the_refs (Val v # xs) = the_refs xs"
| "the_refs (DictRef r # xs) = r # the_refs xs"

text \<open>
  \<open>_chek_identical_keys\<close>: every dictionary after the first is compared with the first
  one; the loop returns False at the first difference.
\<close>

fun keys_like :: "pydict \<Rightarrow> pydict list \<Rightarrow> bool" where
  "keys_like d0 [] = True"
| "keys_like d0 (d # ds) =
     (if \<not> sort (map fst d) = sort (map fst d0) then False else keys_like d0 ds)"

fun chek_identical_keys :: "pydict list \<Rightarrow> bool" where
  "chek_identical_keys [] = True"
| "chek_identical_keys (d0 # ds) = keys_like d0 ds"

text \<open>\<open>[{'chat_id': chat, **args} for chat in chats]\<close>.\<close>

fun scalar_targets :: "heap \<Rightarrow> ref option \<Rightarrow> pyval list \<Rightarrow> exc + pydict list" where
  "scalar_targets h args [] = Inr []"
| "scalar_targets h args (c # cs) =
     (case unpack_args h args [(''chat_id'', c)] of
        Inl e \<Rightarrow> Inl e
      | Inr t \<Rightarrow>
          (case scalar_targets h args cs of
             Inl e \<Rightarrow> Inl e
           | Inr ts \<Rightarrow> Inr (t # ts)))"

text \<open>
  \<open>[{'chat_id': chat.pop('chat_id'), **chat, **args} for chat in chats
     if chat.get('chat_id', None)]\<close>.
  The display is evaluated from left to right: the key is popped from the caller's
  dictionary first, then the remaining items and the items of \<open>args\<close> are read from
  the store as it is by then. An exception leaves the store as it is at that point.
\<close>

fun record_targets :: "ref option \<Rightarrow> ref list \<Rightarrow> heap \<Rightarrow> (exc + pydict list) \<times> heap" where
  "record_targets args [] h = (Inr [], h)"
| "record_targets args (r # rs) h =
     (if truthy (dict_get (h r) ''chat_id'') then
        (case dict_pop (h r) ''chat_id'' of
           Inl e \<Rightarrow> (Inl e, h)
         | Inr (v, d') \<Rightarrow>
             (let h' = h(r := d') in
              case unpack_args h' args (dict_update [(''chat_id'', v)] (h' r)) of
                Inl e \<Rightarrow> (Inl e, h')
              | Inr t \<Rightarrow>
                  (case record_targets args rs h' of
                     (Inl e, h'') \<Rightarrow> (Inl e, h'')
                   | (Inr ts, h'') \<Rightarrow> (Inr (t # ts), h''))))
      else record_targets args rs h)"

text \<open>
  The result is what \<open>self.chats\<close> holds afterwards: \<open>Some\<close> of the targets, or
  \<open>None\<close> when no branch assigned the attribute. The \<open>else\<close> that raises
  AttributeError belongs to the outer test only.
\<close>

definition setup_chats :: "chats_arg \<Rightarrow> ref option \<Rightarrow> heap \<Rightarrow> (exc + pydict list option) \<times> heap" where
  "setup_chats chats args h =
     (case chats of
        Obj (Val v) \<Rightarrow>
          (if is_scalar v then
             (case unpack_args h args [(''chat_id'', v)] of
                Inl e \<Rightarrow> (Inl e, h)
              | Inr t \<Rightarrow> (Inr (Some [t]), h))
           else (Inl (AttributeError ''argument chats: unexpected type''), h))
      | Obj (DictRef r) \<Rightarrow> (Inl (AttributeError ''argument chats: unexpected type''), h)
      | Lst xs \<Rightarrow>
          (if list_all item_is_scalar xs then
             (case scalar_targets h args (the_vals xs) of
                Inl e \<Rightarrow> (Inl e, h)
              | Inr ts \<Rightarrow> (Inr (Some ts), h))
           else if list_all item_is_dict xs then
             (if \<not> list_all (\<lambda>r. truthy (dict_get (h r) ''chat_id'')) (the_refs xs) then
                (Inl (ValueError ''Not all dictionaries have the \"chat_id\" key''), h)
              else if \<not> chek_identical_keys (map h (the_refs xs)) then
                (Inl (ValueError ''Not all dictionaries have identical keys''), h)
              else
                (case record_targets args (the_refs xs) h of
                   (Inl e, h') \<Rightarrow> (Inl e, h')
                 | (Inr ts, h') \<Rightarrow> (Inr (Some ts), h')))
           else (Inr None, h)))"

section \<open>The broadcaster object\<close>

record broadcaster =
  oid :: ref
  chats :: "pydict list option"
  disable_notification :: "bool option"
  disable_web_page_preview :: "bool option"
  reply_to_message_id :: "int option"
  allow_sending_without_reply :: "bool option"
  reply_markup :: pyval
  the_bot :: nat
  timeout :: real
  logger :: string
  priv_id :: nat
  priv_is_running :: bool
  priv_successful :: "pyval list"
  priv_failure :: "pydict list"

text \<open>
  \<open>_setup_bot\<close>. A bot object is truthy, a token is truthy when it is a non-empty
  string. \<open>current\<close> is what \<open>Bot.get_current()\<close> returns and \<open>new_bot\<close> is the
  constructor \<open>Bot(token=...)\<close>, both of the aiogram library.
\<close>

definition setup_bot ::
  "nat option \<Rightarrow> string option \<Rightarrow> nat option \<Rightarrow> (string \<Rightarrow> exc + nat) \<Rightarrow> exc + nat" where
  "setup_bot b token current new_bot =
     (let tok = (case token of None \<Rightarrow> [] | Some t \<Rightarrow> t) in
      if b = None \<and> tok = [] then
        (case current of
           Some c \<Rightarrow> Inr c
         | None \<Rightarrow> Inl (AttributeError ''You should either pass a bot instance or a token''))
      else if b \<noteq> None \<and> tok \<noteq> [] then
        Inl (AttributeError ''You cannot pass both bot and token'')
      else
        (case b of
           Some x \<Rightarrow> Inr x
         | None \<Rightarrow> new_bot tok))"

text \<open>The keyword arguments of the constructor.\<close>

record config =
  cfg_chats :: chats_arg
  cfg_args :: "ref option"
  cfg_disable_notification :: "bool option"
  cfg_disable_web_page_preview :: "bool option"
  cfg_reply_to_message_id :: "int option"
  cfg_allow_sending_without_reply :: "bool option"
  cfg_reply_markup :: pyval
  cfg_bot :: "nat option"
  cfg_bot_token :: "string option"
  cfg_timeout :: real
  cfg_logger :: string

text \<open>
  \<open>__init__\<close>, for the new object \<open>new_oid\<close>, with the class attribute \<open>running\<close>
  (the objects registered at that moment) and the store of the caller's dictionaries.
\<close>

definition init ::
  "config \<Rightarrow> nat option \<Rightarrow> (string \<Rightarrow> exc + nat) \<Rightarrow> ref \<Rightarrow> ref list \<Rightarrow> heap
     \<Rightarrow> (exc + broadcaster) \<times> heap" where
  "init cfg current new_bot new_oid running h =
     (case setup_chats (cfg_chats cfg) (cfg_args cfg) h of
        (Inl e, h') \<Rightarrow> (Inl e, h')
      | (Inr cs, h') \<Rightarrow>
          (case setup_bot (cfg_bot cfg) (cfg_bot_token cfg) current new_bot of
             Inl e \<Rightarrow> (Inl e, h')
           | Inr b \<Rightarrow>
               (Inr \<lparr> oid = new_oid,
                      chats = cs,
                      disable_notification = cfg_disable_notification cfg,
                      disable_web_page_preview = cfg_disable_web_page_preview cfg,
                      reply_to_message_id = cfg_reply_to_message_id cfg,
                      allow_sending_without_reply = cfg_allow_sending_without_reply cfg,
                      reply_markup = cfg_reply_markup cfg,
                      the_bot = b,
                      timeout = cfg_timeout cfg,
                      logger = cfg_logger cfg,
                      priv_id = length running,
                      priv_is_running = False,
                      priv_successful = [],
                      priv_failure = [] \<rparr>, h')))"

text \<open>The property \<open>successful\<close>.\<close>

definition successful :: "broadcaster \<Rightarrow> exc + pyval list" where
  "successful b =
     (if \<not> priv_is_running b then Inl (RunningError (priv_is_running b))
      else Inr (priv_successful b))"

section \<open>\<open>run\<close>\<close>

text \<open>
  What a run does to the outside: the calls of the delivery coroutine, the calls of
  \<open>asyncio.sleep\<close> with their delay, and the lines given to \<open>logging.info\<close> (kept
  as the numbers they print: id, running flag and progress; successes and total).
\<close>

datatype event =
    Delivery pyval pydict
  | Sleep real
  | LogStatus nat bool "(nat \<times> nat) option"
  | LogSummary nat nat

text \<open>
  The state a run works on: the broadcaster, the class attribute \<open>running\<close> (a list of
  objects), the state of whatever the delivery coroutine talks to, and the events so far.
\<close>

record 'w sys =
  self :: broadcaster
  running :: "ref list"
  world :: 'w
  events :: "event list"

text \<open>
  The abstract coroutine \<open>send(chat_id, chat_args)\<close>: it returns a value or raises, and
  may change the outside world.
\<close>

type_synonym 'w send = "'w \<Rightarrow> pyval \<Rightarrow> pydict \<Rightarrow> (exc + pyval) \<times> 'w"

text \<open>\<open>__str__\<close>, which reads the property \<open>successful\<close> when the flag is set.\<close>

definition str_status :: "broadcaster \<Rightarrow> exc + event" where
  "str_status b =
     (if priv_is_running b then
        (case successful b of
           Inl e \<Rightarrow> Inl e
         | Inr s \<Rightarrow>
             (case chats b of
                None \<Rightarrow> Inl (AttributeError ''chats'')
              | Some cs \<Rightarrow> Inr (LogStatus (priv_id b) (priv_is_running b) (Some (length s, length cs)))))
      else Inr (LogStatus (priv_id b) (priv_is_running b) None))"

definition parse_args :: "pydict \<Rightarrow> pyval \<times> pydict" where
  "parse_args chat = (dict_get chat ''chat_id'', chat)"

definition emit :: "event \<Rightarrow> 'w sys \<Rightarrow> 'w sys" where
  "emit e s = s\<lparr>events := events s @ [e]\<rparr>"

text \<open>One pass through the body of the loop.\<close>

definition run_chat :: "'w send \<Rightarrow> pydict \<Rightarrow> 'w sys \<Rightarrow> (exc + unit) \<times> 'w sys" where
  "run_chat send chat s =
     (case str_status (self s) of
        Inl e \<Rightarrow> (Inl e, s)
      | Inr line \<Rightarrow>
          (let s1 = emit line s;
               (chat_id, chat_args) = parse_args chat;
               s2 = emit (Delivery chat_id chat_args) s1
           in case send (world s2) chat_id chat_args of
                (Inl e, w) \<Rightarrow> (Inl e, s2\<lparr>world := w\<rparr>)
              | (Inr v, w) \<Rightarrow>
                  (let s3 = s2\<lparr>world := w\<rparr>;
                       s4 = (if truthy v
                             then s3\<lparr>self := (self s3)\<lparr>priv_successful := priv_successful (self s3) @ [chat_id]\<rparr>\<rparr>
                             else s3\<lparr>self := (self s3)\<lparr>priv_failure := priv_failure (self s3) @ [chat]\<rparr>\<rparr>)
                   in (Inr (), emit (Sleep (timeout (self s4))) s4))))"

fun run_loop :: "'w send \<Rightarrow> pydict list \<Rightarrow> 'w sys \<Rightarrow> (exc + unit) \<times> 'w sys" where
  "run_loop send [] s = (Inr (), s)"
| "run_loop send (c # cs) s =
     (case run_chat send c s of
        (Inl e, s') \<Rightarrow> (Inl e, s')
      | (Inr u, s') \<Rightarrow> run_loop send cs s')"

text \<open>The two statements before the loop and the three after it.\<close>

definition run_begin :: "'w sys \<Rightarrow> 'w sys" where
  "run_begin s =
     s\<lparr>self := (self s)\<lparr>priv_is_running := True\<rparr>, running := running s @ [oid (self s)]\<rparr>"

definition run_end :: "'w sys \<Rightarrow> (exc + unit) \<times> 'w sys" where
  "run_end s =
     (let s1 = s\<lparr>self := (self s)\<lparr>priv_is_running := False\<rparr>\<rparr> in
      if oid (self s1) \<in> set (running s1) then
        (let s2 = s1\<lparr>running := remove1 (oid (self s1)) (running s1)\<rparr> in
         case chats (self s2) of
           None \<Rightarrow> (Inl (AttributeError ''chats''), s2)
         | Some cs \<Rightarrow> (Inr (), emit (LogSummary (length (priv_successful (self s2))) (length cs)) s2))
      else (Inl (ValueError ''list.remove(x): x not in list''), s1))"

definition run :: "'w send \<Rightarrow> 'w sys \<Rightarrow> (exc + unit) \<times> 'w sys" where
  "run send s =
     (let s1 = run_begin s in
      case chats (self s1) of
        None \<Rightarrow> (Inl (AttributeError ''chats''), s1)
      | Some cs \<Rightarrow>
          (case run_loop send cs s1 of
             (Inl e, s2) \<Rightarrow> (Inl e, s2)
           | (Inr u, s2) \<Rightarrow> run_end s2))"

section \<open>Notions used to state the properties\<close>

text \<open>
  The results the delivery coroutine gives when it is called on the targets in their
  order, starting from the world \<open>w\<close>; the list ends with the first exception.
\<close>

fun deliveries :: "'w send \<Rightarrow> 'w \<Rightarrow> pydict list \<Rightarrow> (exc + pyval) list" where
  "deliveries send w [] = []"
| "deliveries send w (c # cs) =
     (case send w (dict_get c ''chat_id'') c of
        (Inl e, w') \<Rightarrow> [Inl e]
      | (Inr v, w') \<Rightarrow> Inr v # deliveries send w' cs)"

text \<open>
  The identifiers of the targets whose result is truthy, and the targets whose result is
  falsy, for targets \<open>cs\<close> with the results \<open>vs\<close>.
\<close>

definition successes_of :: "pydict list \<Rightarrow> pyval list \<Rightarrow> pyval list" where
  "successes_of cs vs = map (\<lambda>(c, v). dict_get c ''chat_id'') (filter (\<lambda>(c, v). truthy v) (zip cs vs))"

definition failures_of :: "pydict list \<Rightarrow> pyval list \<Rightarrow> pydict list" where
  "failures_of cs vs = map fst (filter (\<lambda>(c, v). \<not> truthy v) (zip cs vs))"

text \<open>The events other than log lines, and the delays of the sleeps, in their order.\<close>

fun is_log :: "event \<Rightarrow> bool" where
  "is_log (LogStatus i r p) = True"
| "is_log (LogSummary n m) = True"
| "is_log (Delivery i c) = False"
| "is_log (Sleep t) = False"

definition actions :: "event list \<Rightarrow> event list" where
  "actions es = filter (\<lambda>e. \<not> is_log e) es"

fun sleeps :: "event list \<Rightarrow> real list" where
  "sleeps [] = []"
| "sleeps (Sleep t # es) = t # sleeps es"
| "sleeps (e # es) = sleeps es"

text \<open>One delivery followed by one sleep of \<open>t\<close> for every target.\<close>

definition schedule :: "real \<Rightarrow> pydict list \<Rightarrow> event list" where
  "schedule t cs = concat (map (\<lambda>c. [Delivery (dict_get c ''chat_id'') c, Sleep t]) cs)"

text \<open>
  The target that the record \<open>d\<close> and the shared dictionary \<open>ad\<close> give: the identifier
  first, then the other items of the record, then the items of \<open>ad\<close>.
\<close>

definition record_target :: "pydict \<Rightarrow> pydict \<Rightarrow> pydict" where
  "record_target d ad =
     dict_update
       (dict_update [(''chat_id'', dict_get d ''chat_id'')] (AList.delete ''chat_id'' d)) ad"


section \<open>Example objects\<close>

text \<open>
  A constructor call with a bot instance, the default interval and everything else left
  at its default, for the new object 100 while nothing is registered.
\<close>

definition example_config :: "chats_arg \<Rightarrow> ref option \<Rightarrow> config" where
  "example_config c a =
     \<lparr> cfg_chats = c, cfg_args = a,
       cfg_disable_notification = None, cfg_disable_web_page_preview = None,
       cfg_reply_to_message_id = None, cfg_allow_sending_without_reply = None,
       cfg_reply_markup = PNone, cfg_bot = Some 7, cfg_bot_token = None,
       cfg_timeout = 1 / 50, cfg_logger = ''aiogram_broadcaster.base'' \<rparr>"

definition example_init :: "chats_arg \<Rightarrow> ref option \<Rightarrow> heap \<Rightarrow> (exc + broadcaster) \<times> heap" where
  "example_init c a h = init (example_config c a) None (\<lambda>t. Inr 8) 100 [] h"

text \<open>The store in which every dictionary is empty; reference 0 serves as \<open>args = {}\<close>.\<close>

definition empty_heap :: heap where
  "empty_heap = (\<lambda>r. [])"

text \<open>The broadcaster that \<open>chats = [1, 2, 3]\<close> and \<open>args = {}\<close> give.\<close>

definition example_targets :: "pydict list" where
  "example_targets = [[(''chat_id'', PInt 1)], [(''chat_id'', PInt 2)], [(''chat_id'', PInt 3)]]"

definition example_broadcaster :: broadcaster where
  "example_broadcaster =
     \<lparr> oid = 100, chats = Some example_targets,
       disable_notification = None, disable_web_page_preview = None,
       reply_to_message_id = None, allow_sending_without_reply = None,
       reply_markup = PNone, the_bot = 7, timeout = 1 / 50,
       logger = ''aiogram_broadcaster.base'', priv_id = 0, priv_is_running = False,
       priv_successful = [], priv_failure = [] \<rparr>"

definition example_sys :: "unit sys" where
  "example_sys = \<lparr> self = example_broadcaster, running = [], world = (), events = [] \<rparr>"

text \<open>A delivery that fails for chat 2 by returning False, and one that raises there.\<close>

definition example_send :: "unit send" where
  "example_send w chat_id chat_args = (Inr (PBool (chat_id \<noteq> PInt 2)), w)"

definition raising_send :: "unit send" where
  "raising_send w chat_id chat_args =
     (if chat_id = PInt 2 then (Inl (OtherError 0), w) else (Inr (PBool True), w))"

text \<open>
  A store with the shared \<open>args = {'opt': 'b'}\<close> at reference 0 and records at the
  references 1 to 6: \<open>{'chat_id': 5, 'opt': 'a'}\<close>, \<open>{'opt': 'z', 'chat_id': 9}\<close>,
  one with the identifier 0, one with the identifier \<open>''\<close>, one without identifier and
  one without the field \<open>opt\<close>.
\<close>

definition record_heap :: heap where
  "record_heap =
     (\<lambda>r. if r = 0 then [(''opt'', PStr ''b'')]
          else if r = 1 then [(''chat_id'', PInt 5), (''opt'', PStr ''a'')]
          else if r = 2 then [(''opt'', PStr ''z''), (''chat_id'', PInt 9)]
          else if r = 3 then [(''chat_id'', PInt 0), (''opt'', PStr ''c'')]
          else if r = 4 then [(''chat_id'', PStr []), (''opt'', PStr ''d'')]
          else if r = 5 then [(''opt'', PStr ''e'')]
          else if r = 6 then [(''chat_id'', PInt 6)]
          else [])"

section \<open>Properties of a run\<close>

lemma str_status_running:
  "priv_is_running b \<Longrightarrow> chats b = Some cs \<Longrightarrow>
   str_status b = Inr (LogStatus (priv_id b) True (Some (length (priv_successful b), length cs)))"
  by (simp add: str_status_def successful_def)

lemma run_chat_frame:
  assumes "run_chat send c s = (r, s')"
  shows "priv_is_running (self s') = priv_is_running (self s)
       \<and> oid (self s') = oid (self s)
       \<and> chats (self s') = chats (self s)
       \<and> timeout (self s') = timeout (self s)
       \<and> running s' = running s"
  using assms
  by (auto simp: run_chat_def Let_def parse_args_def emit_def split: sum.splits prod.splits if_splits)

lemma run_loop_frame:
  "run_loop send cs s = (r, s') \<Longrightarrow>
     priv_is_running (self s') = priv_is_running (self s)
   \<and> oid (self s') = oid (self s)
   \<and> chats (self s') = chats (self s)
   \<and> timeout (self s') = timeout (self s)
   \<and> running s' = running s"
proof (induction cs arbitrary: s)
  case Nil
  then show ?case by simp
next
  case (Cons c cs)
  obtain q s1 where step: "run_chat send c s = (q, s1)" by (cases "run_chat send c s")
  note f = run_chat_frame [OF step]
  show ?case
  proof (cases q)
    case (Inl e)
    with step Cons.prems have "s' = s1" by simp
    with f show ?thesis by simp
  next
    case (Inr u)
    with step Cons.prems have "run_loop send cs s1 = (r, s')" by simp
    from Cons.IH [OF this] f show ?thesis by simp
  qed
qed

text \<open>What one pass of the body does when the flag is set and the targets are there.\<close>

lemma run_chat_returns:
  assumes "priv_is_running (self s)" and "chats (self s) = Some al"
    and "send (world s) (dict_get c ''chat_id'') c = (Inr v, w)"
  shows "\<exists>s'. run_chat send c s = (Inr (), s')
      \<and> world s' = w
      \<and> priv_successful (self s') =
          priv_successful (self s) @ (if truthy v then [dict_get c ''chat_id''] else [])
      \<and> priv_failure (self s') = priv_failure (self s) @ (if truthy v then [] else [c])
      \<and> events s' = events s @
          [LogStatus (priv_id (self s)) True (Some (length (priv_successful (self s)), length al)),
           Delivery (dict_get c ''chat_id'') c, Sleep (timeout (self s))]"
  using assms
  by (simp add: run_chat_def str_status_running Let_def parse_args_def emit_def)

lemma run_chat_raises:
  assumes "priv_is_running (self s)" and "chats (self s) = Some al"
    and "send (world s) (dict_get c ''chat_id'') c = (Inl e, w)"
  shows "\<exists>s'. run_chat send c s = (Inl e, s')
      \<and> world s' = w
      \<and> priv_successful (self s') = priv_successful (self s)
      \<and> priv_failure (self s') = priv_failure (self s)
      \<and> events s' = events s @
          [LogStatus (priv_id (self s)) True (Some (length (priv_successful (self s)), length al)),
           Delivery (dict_get c ''chat_id'') c]"
  using assms
  by (simp add: run_chat_def str_status_running Let_def parse_args_def emit_def)

lemma successes_of_Cons:
  "successes_of (c # cs) (v # vs) =
     (if truthy v then [dict_get c ''chat_id''] else []) @ successes_of cs vs"
  by (simp add: successes_of_def)

lemma failures_of_Cons:
  "failures_of (c # cs) (v # vs) = (if truthy v then [] else [c]) @ failures_of cs vs"
  by (simp add: failures_of_def)

lemma run_loop_returns:
  assumes "priv_is_running (self s)" and "chats (self s) = Some al"
    and "deliveries send (world s) cs = map Inr vs"
  shows "\<exists>s'. run_loop send cs s = (Inr (), s')
      \<and> priv_successful (self s') = priv_successful (self s) @ successes_of cs vs
      \<and> priv_failure (self s') = priv_failure (self s) @ failures_of cs vs"
  using assms
proof (induction cs arbitrary: s vs)
  case Nil
  then show ?case by (simp add: successes_of_def failures_of_def)
next
  case (Cons c cs)
  obtain q w where snd: "send (world s) (dict_get c ''chat_id'') c = (q, w)"
    by (cases "send (world s) (dict_get c ''chat_id'') c")
  with Cons.prems(3) obtain v vs' where q: "q = Inr v" and vs: "vs = v # vs'"
    and rest: "deliveries send w cs = map Inr vs'"
    by (cases q; cases vs) auto
  from run_chat_returns [where send = send and s = s and c = c and v = v and w = w and al = al]
    Cons.prems(1,2) snd q
  obtain s1 where step: "run_chat send c s = (Inr (), s1)" and w1: "world s1 = w"
    and su: "priv_successful (self s1) =
          priv_successful (self s) @ (if truthy v then [dict_get c ''chat_id''] else [])"
    and fa: "priv_failure (self s1) = priv_failure (self s) @ (if truthy v then [] else [c])"
    by blast
  from run_chat_frame [OF step] Cons.prems
  have inv: "priv_is_running (self s1)" "chats (self s1) = Some al" by simp_all
  from Cons.IH [OF inv, of vs'] rest w1
  obtain s' where loop: "run_loop send cs s1 = (Inr (), s')"
    and su': "priv_successful (self s') = priv_successful (self s1) @ successes_of cs vs'"
    and fa': "priv_failure (self s') = priv_failure (self s1) @ failures_of cs vs'"
    by auto
  show ?case
    using step loop su su' fa fa' vs
    by (simp add: successes_of_Cons failures_of_Cons)
qed

lemma run_loop_raises:
  assumes "priv_is_running (self s)" and "chats (self s) = Some al"
    and "deliveries send (world s) cs = map Inr vs @ [Inl e]"
  shows "\<exists>s'. run_loop send cs s = (Inl e, s')"
  using assms
proof (induction cs arbitrary: s vs)
  case Nil
  then show ?case by simp
next
  case (Cons c cs)
  obtain q w where snd: "send (world s) (dict_get c ''chat_id'') c = (q, w)"
    by (cases "send (world s) (dict_get c ''chat_id'') c")
  show ?case
  proof (cases q)
    case (Inl e')
    with snd Cons.prems(3) have "e' = e" by (cases vs) auto
    with run_chat_raises [where send = send and s = s and c = c and e = e and w = w and al = al]
      Cons.prems(1,2) snd Inl
    show ?thesis by auto
  next
    case (Inr v)
    with snd Cons.prems(3) obtain vs' where rest: "deliveries send w cs = map Inr vs' @ [Inl e]"
      by (cases vs) auto
    from run_chat_returns [where send = send and s = s and c = c and v = v and w = w and al = al]
      Cons.prems(1,2) snd Inr
    obtain s1 where step: "run_chat send c s = (Inr (), s1)" and w1: "world s1 = w"
      by blast
    from run_chat_frame [OF step] Cons.prems
    have inv: "priv_is_running (self s1)" "chats (self s1) = Some al" by simp_all
    from Cons.IH [OF inv, of vs'] rest w1 step show ?thesis by auto
  qed
qed

lemma actions_append: "actions (es @ fs) = actions es @ actions fs"
  by (simp add: actions_def)

lemma sleeps_append: "sleeps (es @ fs) = sleeps es @ sleeps fs"
  by (induction es rule: sleeps.induct) simp_all

lemma run_chat_events:
  assumes "run_chat send c s = (Inr u, s')"
  shows "actions (events s') = actions (events s) @
           [Delivery (dict_get c ''chat_id'') c, Sleep (timeout (self s))]
       \<and> sleeps (events s') = sleeps (events s) @ [timeout (self s)]"
  using assms
  by (auto simp: run_chat_def Let_def parse_args_def emit_def str_status_def actions_append
      sleeps_append actions_def split: sum.splits prod.splits if_splits option.splits)


lemma run_loop_events:
  "run_loop send cs s = (Inr u, s') \<Longrightarrow>
     actions (events s') = actions (events s) @ schedule (timeout (self s)) cs
   \<and> sleeps (events s') = sleeps (events s) @ replicate (length cs) (timeout (self s))"
proof (induction cs arbitrary: s)
  case Nil
  then show ?case by (simp add: schedule_def)
next
  case (Cons c cs)
  obtain q s1 where step: "run_chat send c s = (q, s1)" by (cases "run_chat send c s")
  with Cons.prems obtain u' where q: "q = Inr u'" and loop: "run_loop send cs s1 = (Inr u, s')"
    by (cases q) auto
  from run_chat_frame [OF step] have t: "timeout (self s1) = timeout (self s)" by simp
  from run_chat_events [OF step [unfolded q]] Cons.IH [OF loop] t
  show ?case by (simp add: schedule_def replicate_append_same)
qed

text \<open>The whole of a run that the delivery does not interrupt.\<close>

lemma run_completes:
  assumes "chats (self s) = Some cs" and "deliveries send (world s) cs = map Inr vs"
  shows "\<exists>s'. run send s = (Inr (), s')
      \<and> priv_successful (self s') = priv_successful (self s) @ successes_of cs vs
      \<and> priv_failure (self s') = priv_failure (self s) @ failures_of cs vs
      \<and> chats (self s') = Some cs
      \<and> \<not> priv_is_running (self s')
      \<and> running s' = remove1 (oid (self s)) (running s @ [oid (self s)])"
proof -
  let ?b = "run_begin s"
  have b: "priv_is_running (self ?b)" "chats (self ?b) = Some cs" "world ?b = world s"
    "priv_successful (self ?b) = priv_successful (self s)"
    "priv_failure (self ?b) = priv_failure (self s)"
    "running ?b = running s @ [oid (self s)]" "oid (self ?b) = oid (self s)"
    using assms(1) by (simp_all add: run_begin_def)
  from run_loop_returns [where send = send and s = ?b and cs = cs and vs = vs and al = cs]
    b assms(2)
  obtain s2 where loop: "run_loop send cs ?b = (Inr (), s2)"
    and su: "priv_successful (self s2) = priv_successful (self s) @ successes_of cs vs"
    and fa: "priv_failure (self s2) = priv_failure (self s) @ failures_of cs vs"
    by auto
  from run_loop_frame [OF loop] b
  have f: "chats (self s2) = Some cs" "running s2 = running s @ [oid (self s)]"
    "oid (self s2) = oid (self s)" by simp_all
  show ?thesis
    using loop su fa f b(2)
    by (simp add: run_def run_end_def Let_def emit_def)
qed

text \<open>A run leaves by an exception only with the flag set and the object registered.\<close>

lemma run_raised_stuck:
  assumes "run send s = (Inl e, s')"
  shows "priv_is_running (self s') \<and> oid (self s) \<in> set (running s')
       \<and> running s' = running s @ [oid (self s)]"
proof (cases "chats (self s)")
  case None
  with assms show ?thesis by (auto simp: run_def run_begin_def Let_def)
next
  case (Some cs)
  let ?b = "run_begin s"
  have b: "priv_is_running (self ?b)" "chats (self ?b) = Some cs"
    "running ?b = running s @ [oid (self s)]" "oid (self ?b) = oid (self s)"
    using Some by (simp_all add: run_begin_def)
  obtain q s2 where loop: "run_loop send cs ?b = (q, s2)" by (cases "run_loop send cs ?b")
  from run_loop_frame [OF loop] b
  have f: "priv_is_running (self s2)" "chats (self s2) = Some cs"
    "running s2 = running s @ [oid (self s)]" "oid (self s2) = oid (self s)" by simp_all
  show ?thesis
  proof (cases q)
    case (Inl e')
    with assms loop b(2) have "s' = s2" by (simp add: run_def Let_def)
    with f show ?thesis by simp
  next
    case (Inr u)
    with assms loop b(2) have "run_end s2 = (Inl e, s')" by (simp add: run_def Let_def)
    with f show ?thesis by (simp add: run_end_def Let_def)
  qed
qed

lemma run_aborts:
  assumes "chats (self s) = Some cs" and "deliveries send (world s) cs = map Inr vs @ [Inl e]"
  shows "\<exists>s'. run send s = (Inl e, s')"
proof -
  let ?b = "run_begin s"
  have b: "priv_is_running (self ?b)" "chats (self ?b) = Some cs" "world ?b = world s"
    using assms(1) by (simp_all add: run_begin_def)
  from run_loop_raises [where send = send and s = ?b and cs = cs and vs = vs and al = cs and e = e]
    b assms(2)
  obtain s2 where "run_loop send cs ?b = (Inl e, s2)" by auto
  with b(2) show ?thesis by (simp add: run_def Let_def)
qed

text \<open>Whatever a run does, it only appends to the two logs.\<close>

lemma run_chat_appends:
  "\<exists>ss fs. priv_successful (self (snd (run_chat send c s))) = priv_successful (self s) @ ss
         \<and> priv_failure (self (snd (run_chat send c s))) = priv_failure (self s) @ fs"
  by (auto simp: run_chat_def Let_def parse_args_def emit_def split: sum.splits prod.splits)

lemma run_loop_appends:
  "\<exists>ss fs. priv_successful (self (snd (run_loop send cs s))) = priv_successful (self s) @ ss
         \<and> priv_failure (self (snd (run_loop send cs s))) = priv_failure (self s) @ fs"
proof (induction cs arbitrary: s)
  case Nil
  then show ?case by simp
next
  case (Cons c cs)
  obtain q s1 where step: "run_chat send c s = (q, s1)" by (cases "run_chat send c s")
  from run_chat_appends [of send c s] step
  obtain ss fs where a: "priv_successful (self s1) = priv_successful (self s) @ ss"
    "priv_failure (self s1) = priv_failure (self s) @ fs" by auto
  show ?case
  proof (cases q)
    case (Inl e)
    with step a show ?thesis by simp
  next
    case (Inr u)
    from Cons.IH [of s1]
    obtain ss' fs' where
      "priv_successful (self (snd (run_loop send cs s1))) = priv_successful (self s1) @ ss'"
      "priv_failure (self (snd (run_loop send cs s1))) = priv_failure (self s1) @ fs'" by blast
    with step a Inr show ?thesis by simp
  qed
qed

lemma run_appends:
  "\<exists>ss fs. priv_successful (self (snd (run send s))) = priv_successful (self s) @ ss
         \<and> priv_failure (self (snd (run send s))) = priv_failure (self s) @ fs"
proof (cases "chats (self s)")
  case None
  then show ?thesis by (simp add: run_def run_begin_def Let_def)
next
  case (Some cs)
  let ?b = "run_begin s"
  have b: "chats (self ?b) = Some cs" "priv_successful (self ?b) = priv_successful (self s)"
    "priv_failure (self ?b) = priv_failure (self s)"
    using Some by (simp_all add: run_begin_def)
  obtain q s2 where loop: "run_loop send cs ?b = (q, s2)" by (cases "run_loop send cs ?b")
  from run_loop_appends [of send cs ?b] loop b
  obtain ss fs where a: "priv_successful (self s2) = priv_successful (self s) @ ss"
    "priv_failure (self s2) = priv_failure (self s) @ fs" by auto
  have e: "priv_successful (self (snd (run_end s2))) = priv_successful (self s2)"
    "priv_failure (self (snd (run_end s2))) = priv_failure (self s2)"
    by (simp_all add: run_end_def Let_def emit_def split: option.splits)
  show ?thesis
    using loop b(1) a e by (cases q) (simp_all add: run_def Let_def)
qed

text \<open>A new object starts idle with empty logs.\<close>

lemma init_fresh:
  assumes "init cfg current new_bot new_oid reg h = (Inr b, h')"
  shows "\<not> priv_is_running b \<and> priv_successful b = [] \<and> priv_failure b = []"
  using assms by (auto simp: init_def split: prod.splits sum.splits)

lemma run_loop_begin_running:
  "priv_is_running (self (snd (run_loop send pre (run_begin s))))"
proof -
  obtain q s' where l: "run_loop send pre (run_begin s) = (q, s')"
    by (cases "run_loop send pre (run_begin s)")
  from run_loop_frame [OF l] l show ?thesis by (simp add: run_begin_def)
qed

lemma run_returned_idle:
  assumes "run send s = (Inr u, s')"
  shows "\<not> priv_is_running (self s')"
  using assms
  by (auto simp: run_def run_end_def Let_def emit_def split: option.splits sum.splits prod.splits if_splits)

text \<open>Evaluating the example objects.\<close>

lemmas run_eval =
  run_def run_begin_def run_end_def run_chat_def Let_def example_sys_def
  example_broadcaster_def example_targets_def example_send_def raising_send_def
  str_status_def successful_def parse_args_def emit_def dict_get_def

lemma example_init_ok:
  "example_init (Lst [Val (PInt 1), Val (PInt 2), Val (PInt 3)]) (Some 0) empty_heap =
     (Inr example_broadcaster, empty_heap)"
  by (simp add: example_init_def init_def example_config_def setup_chats_def unpack_args_def
      dict_update_def empty_heap_def setup_bot_def example_broadcaster_def example_targets_def)


section \<open>The claims about a run\<close>

text \<open>
  Claim C4. When the delivery returns a value for every target of a run, the run
  completes, the identifiers of the targets with a truthy result are appended to the
  successes in the order of the targets, and the targets with a falsy result are appended
  to the failures. For the targets 1, 2, 3 with the results True, False, True a new
  broadcaster ends with the successes \<open>[1, 3]\<close> and the target of 2 as its only failure.
\<close>

theorem run_outcome_logs:
  assumes "chats (self s) = Some cs" and "deliveries send (world s) cs = map Inr vs"
  shows "fst (run send s) = Inr ()
       \<and> priv_successful (self (snd (run send s))) = priv_successful (self s) @ successes_of cs vs
       \<and> priv_failure (self (snd (run send s))) = priv_failure (self s) @ failures_of cs vs"
  using run_completes [OF assms] by auto

theorem run_outcome_logs_witness:
  "chats (self example_sys) = Some example_targets
   \<and> deliveries example_send (world example_sys) example_targets =
       map Inr [PBool True, PBool False, PBool True]
   \<and> fst (run example_send example_sys) = Inr ()
   \<and> priv_successful (self (snd (run example_send example_sys))) = [PInt 1, PInt 3]
   \<and> priv_failure (self (snd (run example_send example_sys))) = [[(''chat_id'', PInt 2)]]"
proof -
  have c: "chats (self example_sys) = Some example_targets"
    by (simp add: example_sys_def example_broadcaster_def)
  have d: "deliveries example_send (world example_sys) example_targets =
       map Inr [PBool True, PBool False, PBool True]"
    by (simp add: example_targets_def example_send_def dict_get_def)
  have l: "priv_successful (self example_sys) = []" "priv_failure (self example_sys) = []"
    by (simp_all add: example_sys_def example_broadcaster_def)
  have s: "successes_of example_targets [PBool True, PBool False, PBool True] = [PInt 1, PInt 3]"
    by (simp add: successes_of_def example_targets_def dict_get_def)
  have f: "failures_of example_targets [PBool True, PBool False, PBool True] = [[(''chat_id'', PInt 2)]]"
    by (simp add: failures_of_def example_targets_def)
  from run_outcome_logs [OF c d] c d show ?thesis by (simp add: l s f)
qed

text \<open>
  Claim C6. When the delivery raises for some target (after returning for the ones before
  it), \<open>run\<close> leaves with that exception, the running flag is still set and the object
  is still in the registry \<open>running\<close>.
\<close>

theorem delivery_exception_leaves_running:
  assumes "chats (self s) = Some cs" and "deliveries send (world s) cs = map Inr vs @ [Inl e]"
  shows "fst (run send s) = Inl e
       \<and> priv_is_running (self (snd (run send s)))
       \<and> oid (self s) \<in> set (running (snd (run send s)))"
proof -
  from run_aborts [OF assms] obtain s' where r: "run send s = (Inl e, s')" by blast
  from run_raised_stuck [OF r] r show ?thesis by simp
qed

theorem delivery_exception_leaves_running_witness:
  "chats (self example_sys) = Some example_targets
   \<and> deliveries raising_send (world example_sys) example_targets =
       map Inr [PBool True] @ [Inl (OtherError 0)]
   \<and> fst (run raising_send example_sys) = Inl (OtherError 0)
   \<and> priv_is_running (self (snd (run raising_send example_sys)))
   \<and> 100 \<in> set (running (snd (run raising_send example_sys)))"
proof -
  have c: "chats (self example_sys) = Some example_targets"
    by (simp add: example_sys_def example_broadcaster_def)
  have d: "deliveries raising_send (world example_sys) example_targets =
       map Inr [PBool True] @ [Inl (OtherError 0)]"
    by (simp add: example_targets_def raising_send_def dict_get_def)
  have o: "oid (self example_sys) = 100"
    by (simp add: example_sys_def example_broadcaster_def)
  from delivery_exception_leaves_running [OF c d] c d o show ?thesis by simp
qed

text \<open>
  Claim C9. A run that completes calls \<open>asyncio.sleep\<close> with the configured interval
  exactly once after the delivery to each target, the last one included: apart from the
  log lines, its events are a delivery and a sleep for every target in turn. Over \<open>N\<close>
  targets that is \<open>N\<close> sleeps whose delays add up to \<open>N\<close> times the interval, and each
  sleep suspends for at least its delay.
\<close>

theorem sleep_after_every_target:
  assumes "chats (self s) = Some cs" and "fst (run send s) = Inr ()"
  shows "actions (events (snd (run send s))) =
           actions (events s) @ schedule (timeout (self s)) cs
       \<and> sleeps (events (snd (run send s))) =
           sleeps (events s) @ replicate (length cs) (timeout (self s))
       \<and> sum_list (sleeps (events (snd (run send s)))) =
           sum_list (sleeps (events s)) + real (length cs) * timeout (self s)"
proof -
  let ?b = "run_begin s"
  have b: "chats (self ?b) = Some cs" "events ?b = events s" "timeout (self ?b) = timeout (self s)"
    using assms(1) by (simp_all add: run_begin_def)
  obtain q s2 where loop: "run_loop send cs ?b = (q, s2)" by (cases "run_loop send cs ?b")
  with assms(2) b(1) obtain u where q: "q = Inr u"
    by (cases q) (simp_all add: run_def Let_def)
  from run_loop_events [OF loop [unfolded q]] b
  have ev: "actions (events s2) = actions (events s) @ schedule (timeout (self s)) cs"
    "sleeps (events s2) = sleeps (events s) @ replicate (length cs) (timeout (self s))"
    by simp_all
  from run_loop_frame [OF loop] b have c2: "chats (self s2) = Some cs" by simp
  have r: "run send s = run_end s2" using loop q b(1) by (simp add: run_def Let_def)
  from assms(2) r c2
  have "events (snd (run send s)) =
          events s2 @ [LogSummary (length (priv_successful (self s2))) (length cs)]"
    by (auto simp: run_end_def Let_def emit_def split: if_splits)
  with ev show ?thesis
    by (simp add: actions_append sleeps_append actions_def sum_list_replicate)
qed

theorem sleep_after_every_target_witness:
  "chats (self example_sys) = Some example_targets
   \<and> fst (run example_send example_sys) = Inr ()
   \<and> actions (events (snd (run example_send example_sys))) =
       [Delivery (PInt 1) [(''chat_id'', PInt 1)], Sleep (1 / 50),
        Delivery (PInt 2) [(''chat_id'', PInt 2)], Sleep (1 / 50),
        Delivery (PInt 3) [(''chat_id'', PInt 3)], Sleep (1 / 50)]
   \<and> sleeps (events (snd (run example_send example_sys))) = [1 / 50, 1 / 50, 1 / 50]
   \<and> sum_list (sleeps (events (snd (run example_send example_sys)))) = 3 * (1 / 50)"
proof -
  have c: "chats (self example_sys) = Some example_targets"
    by (simp add: example_sys_def example_broadcaster_def)
  have r: "fst (run example_send example_sys) = Inr ()"
    by (simp add: run_def run_begin_def run_end_def run_chat_def Let_def example_sys_def
      example_broadcaster_def example_targets_def example_send_def str_status_def
      successful_def parse_args_def emit_def dict_get_def)
  have e: "events example_sys = []" "timeout (self example_sys) = 1 / 50"
    by (simp_all add: example_sys_def example_broadcaster_def)
  have sch: "schedule (1 / 50) example_targets =
       [Delivery (PInt 1) [(''chat_id'', PInt 1)], Sleep (1 / 50),
        Delivery (PInt 2) [(''chat_id'', PInt 2)], Sleep (1 / 50),
        Delivery (PInt 3) [(''chat_id'', PInt 3)], Sleep (1 / 50)]"
    by (simp add: schedule_def example_targets_def dict_get_def)
  have n: "length example_targets = 3" by (simp add: example_targets_def)
  have rep: "replicate 3 (1 / 50 :: real) = [1 / 50, 1 / 50, 1 / 50]"
    by (simp add: numeral_3_eq_3)
  from sleep_after_every_target [OF c r] c r show ?thesis
    by (simp add: e sch n rep actions_def)
qed

text \<open>
  Claim C1, as amended. The property \<open>successful\<close> raises RunningError exactly when the
  running flag is not set, which is the case before any run and again after a run has
  completed: on a new object it raises; after \<open>run\<close> has set the flag, and after any
  number of passes through the loop, it returns the successes; after a run that left by an
  exception it still returns them; after a run that completed it raises again.
\<close>

theorem successful_only_while_running:
  "(init cfg current new_bot new_oid reg h = (Inr b, h') \<longrightarrow>
      successful b = Inl (RunningError False))
   \<and> successful (self (snd (run_loop send1 pre (run_begin s1)))) =
       Inr (priv_successful (self (snd (run_loop send1 pre (run_begin s1)))))
   \<and> (fst (run send2 s2) = Inl e \<longrightarrow>
       successful (self (snd (run send2 s2))) = Inr (priv_successful (self (snd (run send2 s2)))))
   \<and> (fst (run send s) = Inr () \<longrightarrow>
       successful (self (snd (run send s))) = Inl (RunningError False))"
proof (intro conjI impI)
  assume "init cfg current new_bot new_oid reg h = (Inr b, h')"
  from init_fresh [OF this] show "successful b = Inl (RunningError False)"
    by (simp add: successful_def)
next
  show "successful (self (snd (run_loop send1 pre (run_begin s1)))) =
       Inr (priv_successful (self (snd (run_loop send1 pre (run_begin s1)))))"
    using run_loop_begin_running [of send1 pre s1] by (simp add: successful_def)
next
  assume "fst (run send2 s2) = Inl e"
  then obtain s' where r: "run send2 s2 = (Inl e, s')" by (cases "run send2 s2") simp
  from run_raised_stuck [OF r] r
  show "successful (self (snd (run send2 s2))) = Inr (priv_successful (self (snd (run send2 s2))))"
    by (simp add: successful_def)
next
  assume "fst (run send s) = Inr ()"
  then obtain s' where r: "run send s = (Inr (), s')" by (cases "run send s") simp
  from run_returned_idle [OF r] r
  show "successful (self (snd (run send s))) = Inl (RunningError False)"
    by (simp add: successful_def)
qed

theorem successful_only_while_running_witness:
  "example_init (Lst [Val (PInt 1), Val (PInt 2), Val (PInt 3)]) (Some 0) empty_heap =
     (Inr example_broadcaster, empty_heap)
   \<and> successful example_broadcaster = Inl (RunningError False)
   \<and> successful (self (snd (run_loop example_send [[(''chat_id'', PInt 1)]] (run_begin example_sys))))
       = Inr [PInt 1]
   \<and> fst (run raising_send example_sys) = Inl (OtherError 0)
   \<and> successful (self (snd (run raising_send example_sys))) = Inr [PInt 1]
   \<and> fst (run example_send example_sys) = Inr ()
   \<and> successful (self (snd (run example_send example_sys))) = Inl (RunningError False)"
proof -
  have i: "init (example_config (Lst [Val (PInt 1), Val (PInt 2), Val (PInt 3)]) (Some 0))
             None (\<lambda>t. Inr 8) 100 [] empty_heap = (Inr example_broadcaster, empty_heap)"
    using example_init_ok by (simp add: example_init_def)
  have a: "fst (run raising_send example_sys) = Inl (OtherError 0)"
    by (simp add: run_eval)
  have b: "fst (run example_send example_sys) = Inr ()"
    by (simp add: run_eval)
  have m: "priv_successful (self (snd (run_loop example_send [[(''chat_id'', PInt 1)]]
             (run_begin example_sys)))) = [PInt 1]"
    by (simp add: run_eval)
  have n: "priv_successful (self (snd (run raising_send example_sys))) = [PInt 1]"
    by (simp add: run_eval)
  from successful_only_while_running
         [of "example_config (Lst [Val (PInt 1), Val (PInt 2), Val (PInt 3)]) (Some 0)"
             None "\<lambda>t. Inr 8" 100 "[]" empty_heap example_broadcaster empty_heap
             example_send "[[(''chat_id'', PInt 1)]]" example_sys
             raising_send example_sys "OtherError 0" example_send example_sys]
  show ?thesis using i a b m n by (simp add: example_init_def)
qed

text \<open>
  Claim C1 as stated fails: the run over the targets 1, 2, 3 completes with the successes
  \<open>[1, 3]\<close>, and the property then raises RunningError instead of returning them.
\<close>

theorem successful_after_finished_counterexample:
  "fst (run example_send example_sys) = Inr ()
   \<and> priv_successful (self (snd (run example_send example_sys))) = [PInt 1, PInt 3]
   \<and> successful (self (snd (run example_send example_sys))) = Inl (RunningError False)"
  by (simp add: run_def run_begin_def run_end_def run_chat_def Let_def example_sys_def
      example_broadcaster_def example_targets_def example_send_def str_status_def
      successful_def parse_args_def emit_def dict_get_def)

text \<open>
  Claim C8. The constructor sets both logs to the empty list, and \<open>run\<close> only ever
  appends, however it ends: when a run has completed and \<open>run\<close> is invoked again, the
  logs afterwards are the logs from before the first run, followed by the outcomes of the
  first run, followed by the outcomes of the second.
\<close>

theorem logs_accumulate:
  assumes "init cfg current new_bot new_oid reg h = (Inr b, h')"
    and "chats (self s) = Some cs"
    and "deliveries send (world s) cs = map Inr vs1"
    and "deliveries send (world (snd (run send s))) cs = map Inr vs2"
  shows "priv_successful b = [] \<and> priv_failure b = []
       \<and> (\<exists>ss fs.
             priv_successful (self (snd (run send0 s0))) = priv_successful (self s0) @ ss
           \<and> priv_failure (self (snd (run send0 s0))) = priv_failure (self s0) @ fs)
       \<and> fst (run send (snd (run send s))) = Inr ()
       \<and> priv_successful (self (snd (run send (snd (run send s))))) =
           priv_successful (self s) @ successes_of cs vs1 @ successes_of cs vs2
       \<and> priv_failure (self (snd (run send (snd (run send s))))) =
           priv_failure (self s) @ failures_of cs vs1 @ failures_of cs vs2"
proof -
  from run_completes [OF assms(2,3)]
  obtain s1 where r1: "run send s = (Inr (), s1)"
    and su1: "priv_successful (self s1) = priv_successful (self s) @ successes_of cs vs1"
    and fa1: "priv_failure (self s1) = priv_failure (self s) @ failures_of cs vs1"
    and c1: "chats (self s1) = Some cs"
    by blast
  from assms(4) r1 have d2: "deliveries send (world s1) cs = map Inr vs2" by simp
  from run_completes [OF c1 d2]
  obtain s2 where r2: "run send s1 = (Inr (), s2)"
    and su2: "priv_successful (self s2) = priv_successful (self s1) @ successes_of cs vs2"
    and fa2: "priv_failure (self s2) = priv_failure (self s1) @ failures_of cs vs2"
    by blast
  from init_fresh [OF assms(1)] run_appends [of send0 s0] r1 r2 su1 su2 fa1 fa2
  show ?thesis by simp
qed

theorem logs_accumulate_witness:
  "example_init (Lst [Val (PInt 1), Val (PInt 2), Val (PInt 3)]) (Some 0) empty_heap =
     (Inr example_broadcaster, empty_heap)
   \<and> chats (self example_sys) = Some example_targets
   \<and> deliveries example_send (world example_sys) example_targets =
       map Inr [PBool True, PBool False, PBool True]
   \<and> deliveries example_send (world (snd (run example_send example_sys))) example_targets =
       map Inr [PBool True, PBool False, PBool True]
   \<and> priv_successful example_broadcaster = [] \<and> priv_failure example_broadcaster = []
   \<and> priv_successful (self (snd (run example_send (snd (run example_send example_sys))))) =
       [PInt 1, PInt 3, PInt 1, PInt 3]
   \<and> priv_failure (self (snd (run example_send (snd (run example_send example_sys))))) =
       [[(''chat_id'', PInt 2)], [(''chat_id'', PInt 2)]]"
proof -
  have i: "init (example_config (Lst [Val (PInt 1), Val (PInt 2), Val (PInt 3)]) (Some 0))
             None (\<lambda>t. Inr 8) 100 [] empty_heap = (Inr example_broadcaster, empty_heap)"
    using example_init_ok by (simp add: example_init_def)
  have c: "chats (self example_sys) = Some example_targets"
    by (simp add: example_sys_def example_broadcaster_def)
  have d: "deliveries example_send w example_targets =
       map Inr [PBool True, PBool False, PBool True]" for w
    by (simp add: example_targets_def example_send_def dict_get_def)
  have l: "priv_successful (self example_sys) = []" "priv_failure (self example_sys) = []"
    by (simp_all add: example_sys_def example_broadcaster_def)
  have s: "successes_of example_targets [PBool True, PBool False, PBool True] = [PInt 1, PInt 3]"
    by (simp add: successes_of_def example_targets_def dict_get_def)
  have f: "failures_of example_targets [PBool True, PBool False, PBool True] = [[(''chat_id'', PInt 2)]]"
    by (simp add: failures_of_def example_targets_def)
  from logs_accumulate [where ?send0.0 = example_send and ?s0.0 = example_sys, OF i c d d] i c d
  show ?thesis
    by (simp add: l s f example_init_def)
qed

section \<open>Properties of \<open>_setup_chats\<close>\<close>

text \<open>Dictionaries.\<close>

lemma dict_get_delete: "dict_get (AList.delete k d) k = PNone"
  by (simp add: dict_get_def delete_conv')

lemma truthy_get_pop:
  "truthy (dict_get d k) \<Longrightarrow> dict_pop d k = Inr (dict_get d k, AList.delete k d)"
  by (cases "map_of d k") (simp_all add: dict_get_def dict_pop_def)

lemma wf_dict_delete: "wf_dict d \<Longrightarrow> wf_dict (AList.delete k d)"
  by (simp add: wf_dict_def distinct_delete)

lemma map_of_dict_update:
  "wf_dict e \<Longrightarrow> map_of (dict_update d e) = map_of d ++ map_of e"
proof (induction e arbitrary: d)
  case Nil
  then show ?case by (simp add: dict_update_def)
next
  case (Cons p e)
  obtain k v where p: "p = (k, v)" by (cases p)
  from Cons.prems p have k: "k \<notin> dom (map_of e)" and wf: "wf_dict e"
    by (auto simp: wf_dict_def dom_map_of_conv_image_fst)
  have "map_of (dict_update d (p # e)) = map_of (dict_update (AList.update k v d) e)"
    by (simp add: dict_update_def p)
  also have "\<dots> = (map_of d)(k \<mapsto> v) ++ map_of e"
    by (simp only: Cons.IH [OF wf] update_conv')
  also have "\<dots> = map_of d ++ map_of (p # e)"
    using k by (simp add: p map_add_upd_left)
  finally show ?case .
qed

lemma map_of_record_target:
  assumes "wf_dict d" and "wf_dict ad" and "truthy (dict_get d ''chat_id'')"
  shows "map_of (record_target d ad) = map_of d ++ map_of ad"
proof -
  from assms(3) obtain v where v: "map_of d ''chat_id'' = Some v" "dict_get d ''chat_id'' = v"
    by (cases "map_of d ''chat_id''") (simp_all add: dict_get_def)
  have wfd: "wf_dict (AList.delete ''chat_id'' d)"
    using assms(1) by (simp add: wf_dict_def distinct_delete)
  have "[''chat_id'' \<mapsto> v] ++ (map_of d)(''chat_id'' := None) = map_of d"
    using v(1) by (auto simp: map_add_def fun_eq_iff split: option.splits)
  then show ?thesis
    by (simp add: record_target_def map_of_dict_update wfd assms(2) v(2) delete_conv')
qed

text \<open>
  With a dictionary for \<open>args\<close> the comprehension over the records never raises, and
  it removes the identifier from every record it builds a target from.
\<close>

lemma record_targets_Some:
  "\<exists>ts. record_targets (Some a) rs h =
     (Inr ts, (\<lambda>x. if x \<in> set rs \<and> truthy (dict_get (h x) ''chat_id'')
                    then AList.delete ''chat_id'' (h x) else h x))"
proof (induction rs arbitrary: h)
  case Nil
  then show ?case by simp
next
  case (Cons r rs)
  show ?case
  proof (cases "truthy (dict_get (h r) ''chat_id'')")
    case False
    with Cons.IH [of h] show ?thesis by (auto simp: fun_eq_iff)
  next
    case True
    let ?h1 = "h(r := AList.delete ''chat_id'' (h r))"
    from Cons.IH [of ?h1] obtain ts where
      "record_targets (Some a) rs ?h1 =
         (Inr ts, (\<lambda>x. if x \<in> set rs \<and> truthy (dict_get (?h1 x) ''chat_id'')
                    then AList.delete ''chat_id'' (?h1 x) else ?h1 x))" by blast
    moreover have "(\<lambda>x. if x \<in> set rs \<and> truthy (dict_get (?h1 x) ''chat_id'')
                    then AList.delete ''chat_id'' (?h1 x) else ?h1 x) =
          (\<lambda>x. if x \<in> set (r # rs) \<and> truthy (dict_get (h x) ''chat_id'')
                    then AList.delete ''chat_id'' (h x) else h x)"
      using True by (auto simp: fun_eq_iff dict_get_delete)
    ultimately show ?thesis
      using True by (simp add: truthy_get_pop unpack_args_def Let_def)
  qed
qed

lemma record_targets_distinct:
  assumes "distinct rs" and "a \<notin> set rs"
    and "\<forall>r\<in>set rs. truthy (dict_get (h r) ''chat_id'')"
  shows "fst (record_targets (Some a) rs h) = Inr (map (\<lambda>r. record_target (h r) (h a)) rs)"
  using assms
proof (induction rs arbitrary: h)
  case Nil
  then show ?case by simp
next
  case (Cons r rs)
  let ?h1 = "h(r := AList.delete ''chat_id'' (h r))"
  have same: "\<forall>x\<in>set rs. ?h1 x = h x" "?h1 a = h a" using Cons.prems by auto
  have "fst (record_targets (Some a) rs ?h1) = Inr (map (\<lambda>r. record_target (?h1 r) (?h1 a)) rs)"
    using Cons.prems same by (intro Cons.IH) auto
  also have "map (\<lambda>r. record_target (?h1 r) (?h1 a)) rs = map (\<lambda>r. record_target (h r) (h a)) rs"
    using same by (intro map_cong) auto
  finally have rest: "fst (record_targets (Some a) rs ?h1) = Inr (map (\<lambda>r. record_target (h r) (h a)) rs)" .
  have t: "truthy (dict_get (h r) ''chat_id'')" using Cons.prems by simp
  have ar: "a \<noteq> r" using Cons.prems by auto
  show ?case
    using rest t ar
    by (auto simp: truthy_get_pop unpack_args_def Let_def record_target_def
        split: prod.splits sum.splits)
qed

lemma record_targets_each:
  assumes "a \<notin> set rs" and "\<forall>x. wf_dict (h x)"
    and "fst (record_targets (Some a) rs h) = Inr ts"
  shows "\<forall>t\<in>set ts. \<exists>r\<in>set rs. truthy (dict_get (h r) ''chat_id'')
           \<and> t = record_target (h r) (h a)"
  using assms
proof (induction rs arbitrary: h ts)
  case Nil
  then show ?case by simp
next
  case (Cons r rs)
  show ?case
  proof (cases "truthy (dict_get (h r) ''chat_id'')")
    case False
    with Cons.prems have "fst (record_targets (Some a) rs h) = Inr ts" by simp
    from Cons.IH [OF _ Cons.prems(2) this] Cons.prems(1) show ?thesis by auto
  next
    case True
    let ?h1 = "h(r := AList.delete ''chat_id'' (h r))"
    have ar: "a \<noteq> r" "a \<notin> set rs" using Cons.prems(1) by auto
    have wf1: "\<forall>x. wf_dict (?h1 x)" using Cons.prems(2) by (simp add: wf_dict_delete)
    obtain ts' where rest: "fst (record_targets (Some a) rs ?h1) = Inr ts'"
      using record_targets_Some [of a rs ?h1] by auto
    have ts: "ts = record_target (h r) (h a) # ts'"
      using Cons.prems(3) True rest ar
      by (auto simp: truthy_get_pop unpack_args_def Let_def record_target_def
          split: prod.splits sum.splits)
    from Cons.IH [OF ar(2) wf1 rest]
    have ih: "\<forall>t\<in>set ts'. \<exists>x\<in>set rs. truthy (dict_get (?h1 x) ''chat_id'')
           \<and> t = record_target (?h1 x) (?h1 a)" .
    have "\<exists>x\<in>set (r # rs). truthy (dict_get (h x) ''chat_id'') \<and> t = record_target (h x) (h a)"
      if "t \<in> set ts'" for t
    proof -
      from ih that obtain x where x: "x \<in> set rs" "truthy (dict_get (?h1 x) ''chat_id'')"
        "t = record_target (?h1 x) (?h1 a)" by blast
      from x(2) have "x \<noteq> r" by (auto simp: dict_get_delete)
      with x ar show ?thesis by auto
    qed
    with ts True show ?thesis by auto
  qed
qed

lemma record_targets_None:
  "rs \<noteq> [] \<Longrightarrow> \<forall>r\<in>set rs. truthy (dict_get (h r) ''chat_id'') \<Longrightarrow>
     fst (record_targets None rs h) = Inl (TypeError ''NoneType object is not a mapping'')"
  by (cases rs) (simp_all add: truthy_get_pop unpack_args_def Let_def)

lemma scalar_targets_None:
  "vs \<noteq> [] \<Longrightarrow> scalar_targets h None vs = Inl (TypeError ''NoneType object is not a mapping'')"
  by (cases vs) (simp_all add: unpack_args_def)

lemma the_vals_scalars: "list_all item_is_scalar xs \<Longrightarrow> length (the_vals xs) = length xs"
  by (induction xs rule: the_vals.induct) simp_all

text \<open>The branch taken for a list of dictionaries.\<close>

lemma map_DictRef_kinds:
  "list_all item_is_dict (map DictRef rs)"
  "list_all item_is_scalar (map DictRef rs) = (rs = [])"
  "the_refs (map DictRef rs) = rs"
  by (induction rs) simp_all

lemma keys_like_iff:
  "keys_like d0 ds = (\<forall>d\<in>set ds. sort (map fst d) = sort (map fst d0))"
  by (induction ds) auto

lemma chek_identical_keys_iff:
  "chek_identical_keys (map h rs) =
     (\<forall>r\<in>set rs. sort (map fst (h r)) = sort (map fst (h (hd rs))))"
  by (cases rs) (auto simp: keys_like_iff)

lemma setup_chats_empty: "setup_chats (Lst []) args h = (Inr (Some []), h)"
  by (simp add: setup_chats_def)

lemma setup_chats_records:
  "rs \<noteq> [] \<Longrightarrow>
   setup_chats (Lst (map DictRef rs)) args h =
     (if \<not> list_all (\<lambda>r. truthy (dict_get (h r) ''chat_id'')) rs then
        (Inl (ValueError ''Not all dictionaries have the \"chat_id\" key''), h)
      else if \<not> chek_identical_keys (map h rs) then
        (Inl (ValueError ''Not all dictionaries have identical keys''), h)
      else
        (case record_targets args rs h of
           (Inl e, h') \<Rightarrow> (Inl e, h')
         | (Inr ts, h') \<Rightarrow> (Inr (Some ts), h')))"
  by (simp add: setup_chats_def map_DictRef_kinds)

lemma setup_chats_other_store:
  "list_all item_is_scalar xs \<or> \<not> list_all item_is_dict xs \<Longrightarrow>
     snd (setup_chats (Lst xs) args h) = h"
  by (auto simp: setup_chats_def split: sum.splits)

lemma init_fails:
  "fst (setup_chats (cfg_chats cfg) (cfg_args cfg) h) = Inl e \<Longrightarrow>
     fst (init cfg current new_bot new_oid reg h) = Inl e"
  by (auto simp: init_def split: prod.splits sum.splits)

lemma record_targets_None_store:
  "rs \<noteq> [] \<Longrightarrow> \<forall>r\<in>set rs. truthy (dict_get (h r) ''chat_id'') \<Longrightarrow>
     record_targets None rs h =
       (Inl (TypeError ''NoneType object is not a mapping''),
        h(hd rs := AList.delete ''chat_id'' (h (hd rs))))"
  by (cases rs) (simp_all add: truthy_get_pop unpack_args_def Let_def)

text \<open>The three outcomes of \<open>_setup_chats\<close> on a non-empty list of records.\<close>

lemma setup_chats_records_cases:
  assumes "rs \<noteq> []"
  shows "(\<exists>m. setup_chats (Lst (map DictRef rs)) args h = (Inl (ValueError m), h))
       \<or> ((\<forall>r\<in>set rs. truthy (dict_get (h r) ''chat_id''))
           \<and> args = None
           \<and> setup_chats (Lst (map DictRef rs)) args h =
               (Inl (TypeError ''NoneType object is not a mapping''),
                h(hd rs := AList.delete ''chat_id'' (h (hd rs)))))
       \<or> ((\<forall>r\<in>set rs. truthy (dict_get (h r) ''chat_id''))
           \<and> (\<exists>a ts. args = Some a
                \<and> setup_chats (Lst (map DictRef rs)) args h =
                    (Inr (Some ts),
                     (\<lambda>x. if x \<in> set rs then AList.delete ''chat_id'' (h x) else h x))))"
proof (cases "list_all (\<lambda>r. truthy (dict_get (h r) ''chat_id'')) rs
              \<and> chek_identical_keys (map h rs)")
  case False
  with assms show ?thesis by (auto simp: setup_chats_records)
next
  case True
  then have valid: "\<forall>r\<in>set rs. truthy (dict_get (h r) ''chat_id'')"
    by (simp add: list_all_iff)
  show ?thesis
  proof (cases args)
    case None
    with True assms valid record_targets_None_store [OF assms valid]
    show ?thesis by (simp add: setup_chats_records)
  next
    case (Some a)
    from record_targets_Some [of a rs h]
    obtain ts where "record_targets (Some a) rs h =
       (Inr ts, (\<lambda>x. if x \<in> set rs \<and> truthy (dict_get (h x) ''chat_id'')
                    then AList.delete ''chat_id'' (h x) else h x))" by blast
    moreover have "(\<lambda>x. if x \<in> set rs \<and> truthy (dict_get (h x) ''chat_id'')
                    then AList.delete ''chat_id'' (h x) else h x) =
         (\<lambda>x. if x \<in> set rs then AList.delete ''chat_id'' (h x) else h x)"
      using valid by (auto simp: fun_eq_iff)
    ultimately show ?thesis using True assms valid Some
      by (simp add: setup_chats_records)
  qed
qed

text \<open>Evaluating the example store.\<close>

lemma record_heap_wf: "\<forall>x. wf_dict (record_heap x)"
  by (simp add: record_heap_def wf_dict_def)

lemma sort_keys_example:
  "sort [''opt'', ''chat_id''] = sort [''chat_id'', ''opt'']"
  by code_simp


section \<open>The claims about construction\<close>

text \<open>
  Claim C2. When construction succeeds on a list of records, every target that was built
  is, as a mapping, its record overwritten by the shared \<open>args\<close>: a key of both takes the
  value of \<open>args\<close>. When the records are distinct objects, the targets are exactly these
  mappings, one per record and in the order of the records. The dictionaries have no key
  twice, and \<open>args\<close> is not itself one of the records. For the record
  \<open>{'chat_id': 5, 'opt': 'a'}\<close> and \<open>args = {'opt': 'b'}\<close> the target is
  \<open>{'chat_id': 5, 'opt': 'b'}\<close>.
\<close>

theorem merge_precedence:
  assumes "setup_chats (Lst (map DictRef rs)) (Some a) h = (Inr (Some ts), h')"
    and "a \<notin> set rs" and "\<forall>x. wf_dict (h x)"
  shows "(\<forall>t\<in>set ts. \<exists>r\<in>set rs. map_of t = map_of (h r) ++ map_of (h a))
       \<and> (distinct rs \<longrightarrow> map map_of ts = map (\<lambda>r. map_of (h r) ++ map_of (h a)) rs)"
proof (cases "rs = []")
  case True
  with assms(1) show ?thesis by (simp add: setup_chats_empty)
next
  case False
  from assms(1) False
  have valid: "\<forall>r\<in>set rs. truthy (dict_get (h r) ''chat_id'')"
    and built: "fst (record_targets (Some a) rs h) = Inr ts"
    by (auto simp: setup_chats_records list_all_iff split: if_splits prod.splits sum.splits)
  have each: "\<forall>t\<in>set ts. \<exists>r\<in>set rs. map_of t = map_of (h r) ++ map_of (h a)"
  proof
    fix t assume "t \<in> set ts"
    with record_targets_each [OF assms(2,3) built]
    obtain r where "r \<in> set rs" "truthy (dict_get (h r) ''chat_id'')"
      "t = record_target (h r) (h a)" by blast
    with assms(3) show "\<exists>r\<in>set rs. map_of t = map_of (h r) ++ map_of (h a)"
      by (auto simp: map_of_record_target)
  qed
  have "map map_of ts = map (\<lambda>r. map_of (h r) ++ map_of (h a)) rs" if "distinct rs"
  proof -
    from record_targets_distinct [OF that assms(2) valid] built
    have "ts = map (\<lambda>r. record_target (h r) (h a)) rs" by simp
    with valid assms(3) show ?thesis by (simp add: map_of_record_target)
  qed
  with each show ?thesis by simp
qed

theorem merge_precedence_witness:
  "setup_chats (Lst (map DictRef [1])) (Some 0) record_heap =
     (Inr (Some [[(''chat_id'', PInt 5), (''opt'', PStr ''b'')]]),
      record_heap(1 := [(''opt'', PStr ''a'')]))
   \<and> 0 \<notin> set [1::nat] \<and> (\<forall>x. wf_dict (record_heap x)) \<and> distinct [1::nat]
   \<and> record_heap 1 = [(''chat_id'', PInt 5), (''opt'', PStr ''a'')]
   \<and> record_heap 0 = [(''opt'', PStr ''b'')]
   \<and> map map_of [[(''chat_id'', PInt 5), (''opt'', PStr ''b'')]] =
       [map_of (record_heap 1) ++ map_of (record_heap 0)]"
proof -
  have s: "setup_chats (Lst (map DictRef [1])) (Some 0) record_heap =
     (Inr (Some [[(''chat_id'', PInt 5), (''opt'', PStr ''b'')]]),
      record_heap(1 := [(''opt'', PStr ''a'')]))"
    by (simp add: setup_chats_def record_heap_def dict_get_def dict_pop_def unpack_args_def
        dict_update_def)
  have a: "0 \<notin> set [1::nat]" by simp
  have d: "distinct [1::nat]" by simp
  have v1: "record_heap 1 = [(''chat_id'', PInt 5), (''opt'', PStr ''a'')]"
    by (simp add: record_heap_def)
  have v0: "record_heap 0 = [(''opt'', PStr ''b'')]"
    by (simp add: record_heap_def)
  from merge_precedence [OF s a record_heap_wf] d
  have m: "map map_of [[(''chat_id'', PInt 5), (''opt'', PStr ''b'')]] =
       [map_of (record_heap 1) ++ map_of (record_heap 0)]"
    by simp
  from s a record_heap_wf d v1 v0 m show ?thesis by (intro conjI)
qed

text \<open>
  Claim C5. For a list of records, \<open>_setup_chats\<close> (the first statement of the
  constructor) raises ValueError when some record has no identifier or a falsy one, such
  as 0 or the empty string; it raises ValueError when every identifier is truthy and the
  sorted keys of some record differ from those of the first record; and otherwise, given a
  dictionary for \<open>args\<close>, it succeeds and assigns the targets.
\<close>

theorem record_validation:
  "((\<exists>r\<in>set rs1. \<not> truthy (dict_get (h1 r) ''chat_id'')) \<longrightarrow>
      setup_chats (Lst (map DictRef rs1)) args1 h1 =
        (Inl (ValueError ''Not all dictionaries have the \"chat_id\" key''), h1))
   \<and> ((\<forall>r\<in>set rs2. truthy (dict_get (h2 r) ''chat_id''))
        \<and> (\<exists>r\<in>set rs2. sort (map fst (h2 r)) \<noteq> sort (map fst (h2 (hd rs2)))) \<longrightarrow>
      setup_chats (Lst (map DictRef rs2)) args2 h2 =
        (Inl (ValueError ''Not all dictionaries have identical keys''), h2))
   \<and> ((\<forall>r\<in>set rs3. truthy (dict_get (h3 r) ''chat_id''))
        \<and> (\<forall>r\<in>set rs3. sort (map fst (h3 r)) = sort (map fst (h3 (hd rs3)))) \<longrightarrow>
      (\<exists>ts h'. setup_chats (Lst (map DictRef rs3)) (Some a) h3 = (Inr (Some ts), h')))"
proof (intro conjI impI)
  assume "\<exists>r\<in>set rs1. \<not> truthy (dict_get (h1 r) ''chat_id'')"
  then have "rs1 \<noteq> []" "\<not> list_all (\<lambda>r. truthy (dict_get (h1 r) ''chat_id'')) rs1"
    by (auto simp: list_all_iff)
  then show "setup_chats (Lst (map DictRef rs1)) args1 h1 =
        (Inl (ValueError ''Not all dictionaries have the \"chat_id\" key''), h1)"
    by (simp add: setup_chats_records)
next
  assume a: "(\<forall>r\<in>set rs2. truthy (dict_get (h2 r) ''chat_id''))
        \<and> (\<exists>r\<in>set rs2. sort (map fst (h2 r)) \<noteq> sort (map fst (h2 (hd rs2))))"
  then have "rs2 \<noteq> []" "list_all (\<lambda>r. truthy (dict_get (h2 r) ''chat_id'')) rs2"
    "\<not> chek_identical_keys (map h2 rs2)"
    by (auto simp: list_all_iff chek_identical_keys_iff)
  then show "setup_chats (Lst (map DictRef rs2)) args2 h2 =
        (Inl (ValueError ''Not all dictionaries have identical keys''), h2)"
    by (simp add: setup_chats_records)
next
  assume a: "(\<forall>r\<in>set rs3. truthy (dict_get (h3 r) ''chat_id''))
        \<and> (\<forall>r\<in>set rs3. sort (map fst (h3 r)) = sort (map fst (h3 (hd rs3))))"
  show "\<exists>ts h'. setup_chats (Lst (map DictRef rs3)) (Some a) h3 = (Inr (Some ts), h')"
  proof (cases "rs3 = []")
    case True
    then show ?thesis by (simp add: setup_chats_empty)
  next
    case False
    from a have "list_all (\<lambda>r. truthy (dict_get (h3 r) ''chat_id'')) rs3"
      "chek_identical_keys (map h3 rs3)"
      by (auto simp: list_all_iff chek_identical_keys_iff)
    moreover from record_targets_Some [of a rs3 h3]
    obtain ts h' where "record_targets (Some a) rs3 h3 = (Inr ts, h')" by blast
    ultimately show ?thesis using False by (simp add: setup_chats_records)
  qed
qed

theorem record_validation_witness:
  "\<not> truthy (dict_get (record_heap 3) ''chat_id'')
   \<and> setup_chats (Lst (map DictRef [1, 3])) (Some 0) record_heap =
        (Inl (ValueError ''Not all dictionaries have the \"chat_id\" key''), record_heap)
   \<and> \<not> truthy (dict_get (record_heap 4) ''chat_id'')
   \<and> setup_chats (Lst (map DictRef [1, 4])) (Some 0) record_heap =
        (Inl (ValueError ''Not all dictionaries have the \"chat_id\" key''), record_heap)
   \<and> \<not> truthy (dict_get (record_heap 5) ''chat_id'')
   \<and> setup_chats (Lst (map DictRef [1, 5])) (Some 0) record_heap =
        (Inl (ValueError ''Not all dictionaries have the \"chat_id\" key''), record_heap)
   \<and> truthy (dict_get (record_heap 1) ''chat_id'')
   \<and> truthy (dict_get (record_heap 6) ''chat_id'')
   \<and> sort (map fst (record_heap 6)) \<noteq> sort (map fst (record_heap 1))
   \<and> setup_chats (Lst (map DictRef [1, 6])) (Some 0) record_heap =
        (Inl (ValueError ''Not all dictionaries have identical keys''), record_heap)
   \<and> truthy (dict_get (record_heap 2) ''chat_id'')
   \<and> sort (map fst (record_heap 2)) = sort (map fst (record_heap 1))
   \<and> (\<exists>ts h'. setup_chats (Lst (map DictRef [1, 2])) (Some 0) record_heap = (Inr (Some ts), h'))"
proof -
  have t: "truthy (dict_get (record_heap 1) ''chat_id'')"
    "truthy (dict_get (record_heap 2) ''chat_id'')"
    "truthy (dict_get (record_heap 6) ''chat_id'')"
    by (simp_all add: record_heap_def dict_get_def)
  have n: "\<not> truthy (dict_get (record_heap 3) ''chat_id'')"
    "\<not> truthy (dict_get (record_heap 4) ''chat_id'')"
    "\<not> truthy (dict_get (record_heap 5) ''chat_id'')"
    by (simp_all add: record_heap_def dict_get_def)
  have k6: "sort (map fst (record_heap 6)) \<noteq> sort (map fst (record_heap 1))"
    by (simp add: record_heap_def)
  have k2: "sort (map fst (record_heap 2)) = sort (map fst (record_heap 1))"
    using sort_keys_example by (simp add: record_heap_def)
  have a3: "\<exists>r\<in>set [1, 3]. \<not> truthy (dict_get (record_heap r) ''chat_id'')"
    using n by simp
  have a4: "\<exists>r\<in>set [1, 4]. \<not> truthy (dict_get (record_heap r) ''chat_id'')"
    using n by simp
  have a5: "\<exists>r\<in>set [1, 5]. \<not> truthy (dict_get (record_heap r) ''chat_id'')"
    using n by simp
  have a6: "(\<forall>r\<in>set [1, 6]. truthy (dict_get (record_heap r) ''chat_id''))
     \<and> (\<exists>r\<in>set [1, 6]. sort (map fst (record_heap r)) \<noteq> sort (map fst (record_heap (hd [1, 6]))))"
    using t k6 by simp
  have a2: "(\<forall>r\<in>set [1, 2]. truthy (dict_get (record_heap r) ''chat_id''))
     \<and> (\<forall>r\<in>set [1, 2]. sort (map fst (record_heap r)) = sort (map fst (record_heap (hd [1, 2]))))"
    using t k2 by simp
  from record_validation [of "[1, 3]" record_heap "Some 0" "[1, 6]" record_heap "Some 0"
      "[1, 2]" record_heap 0] a3 a6 a2
  have r: "setup_chats (Lst (map DictRef [1, 3])) (Some 0) record_heap =
        (Inl (ValueError ''Not all dictionaries have the \"chat_id\" key''), record_heap)"
    "setup_chats (Lst (map DictRef [1, 6])) (Some 0) record_heap =
        (Inl (ValueError ''Not all dictionaries have identical keys''), record_heap)"
    "\<exists>ts h'. setup_chats (Lst (map DictRef [1, 2])) (Some 0) record_heap = (Inr (Some ts), h')"
    by blast+
  from record_validation [of "[1, 4]" record_heap "Some 0"] a4
  have r4: "setup_chats (Lst (map DictRef [1, 4])) (Some 0) record_heap =
        (Inl (ValueError ''Not all dictionaries have the \"chat_id\" key''), record_heap)"
    by blast
  from record_validation [of "[1, 5]" record_heap "Some 0"] a5
  have r5: "setup_chats (Lst (map DictRef [1, 5])) (Some 0) record_heap =
        (Inl (ValueError ''Not all dictionaries have the \"chat_id\" key''), record_heap)"
    by blast
  from n(1) r(1) n(2) r4 n(3) r5 t(1) t(3) k6 r(2) t(2) k2 r(3) show ?thesis
    by (intro conjI)
qed

text \<open>
  Claim C7, as amended. \<open>_setup_chats\<close> is a function of its input and the store. It
  leaves the store unchanged for a single value, for a list of scalars and for a list that
  is not a list of records. On a list of records it raises ValueError or TypeError or
  succeeds: when validation fails with ValueError the store is unchanged; when it succeeds
  it has removed the identifier from every record of the list and changed nothing else;
  and a TypeError is raised only for \<open>args = None\<close>, after validation has passed, and by
  then the first record of the list has lost its identifier and nothing else has changed.
  A dictionary given as \<open>args\<close> is unchanged unless it is itself one of the records.
\<close>

theorem setup_chats_store:
  "snd (setup_chats (Obj i) args h) = h
   \<and> (list_all item_is_scalar xs \<or> \<not> list_all item_is_dict xs \<longrightarrow>
        snd (setup_chats (Lst xs) args h) = h)
   \<and> (fst (setup_chats (Lst (map DictRef rs1)) args1 h1) = Inl (ValueError m1) \<longrightarrow>
        snd (setup_chats (Lst (map DictRef rs1)) args1 h1) = h1)
   \<and> (fst (setup_chats (Lst (map DictRef rs2)) args2 h2) = Inl (TypeError m2) \<longrightarrow>
        args2 = None
        \<and> snd (setup_chats (Lst (map DictRef rs2)) args2 h2) =
            h2(hd rs2 := AList.delete ''chat_id'' (h2 (hd rs2))))
   \<and> (fst (setup_chats (Lst (map DictRef rs3)) args3 h3) = Inl e \<longrightarrow>
        (\<exists>m. e = ValueError m) \<or> (\<exists>m. e = TypeError m))
   \<and> (fst (setup_chats (Lst (map DictRef rs)) args4 h4) = Inr ts \<longrightarrow>
        snd (setup_chats (Lst (map DictRef rs)) args4 h4) =
          (\<lambda>x. if x \<in> set rs then AList.delete ''chat_id'' (h4 x) else h4 x))
   \<and> (a \<notin> set rs5 \<longrightarrow> snd (setup_chats (Lst (map DictRef rs5)) (Some a) h5) a = h5 a)
   \<and> (rs6 \<noteq> [] \<and> (\<forall>r\<in>set rs6. truthy (dict_get (h6 r) ''chat_id''))
        \<and> (\<forall>r\<in>set rs6. sort (map fst (h6 r)) = sort (map fst (h6 (hd rs6)))) \<longrightarrow>
        setup_chats (Lst (map DictRef rs6)) None h6 =
          (Inl (TypeError ''NoneType object is not a mapping''),
           h6(hd rs6 := AList.delete ''chat_id'' (h6 (hd rs6)))))"
proof (intro conjI impI)
  show "snd (setup_chats (Obj i) args h) = h"
    by (cases i) (auto simp: setup_chats_def split: sum.splits)
next
  assume "list_all item_is_scalar xs \<or> \<not> list_all item_is_dict xs"
  then show "snd (setup_chats (Lst xs) args h) = h" by (rule setup_chats_other_store)
next
  assume f: "fst (setup_chats (Lst (map DictRef rs1)) args1 h1) = Inl (ValueError m1)"
  then have "rs1 \<noteq> []" by (auto simp: setup_chats_empty)
  from setup_chats_records_cases [OF this, of args1 h1] f
  show "snd (setup_chats (Lst (map DictRef rs1)) args1 h1) = h1" by auto
next
  assume f: "fst (setup_chats (Lst (map DictRef rs2)) args2 h2) = Inl (TypeError m2)"
  then have "rs2 \<noteq> []" by (auto simp: setup_chats_empty)
  from setup_chats_records_cases [OF this, of args2 h2] f
  have "args2 = None \<and> snd (setup_chats (Lst (map DictRef rs2)) args2 h2) =
            h2(hd rs2 := AList.delete ''chat_id'' (h2 (hd rs2)))" by auto
  then show "args2 = None"
    and "snd (setup_chats (Lst (map DictRef rs2)) args2 h2) =
            h2(hd rs2 := AList.delete ''chat_id'' (h2 (hd rs2)))" by blast+
next
  assume f: "fst (setup_chats (Lst (map DictRef rs3)) args3 h3) = Inl e"
  then have "rs3 \<noteq> []" by (auto simp: setup_chats_empty)
  from setup_chats_records_cases [OF this, of args3 h3] f
  show "(\<exists>m. e = ValueError m) \<or> (\<exists>m. e = TypeError m)" by auto
next
  assume f: "fst (setup_chats (Lst (map DictRef rs)) args4 h4) = Inr ts"
  show "snd (setup_chats (Lst (map DictRef rs)) args4 h4) =
          (\<lambda>x. if x \<in> set rs then AList.delete ''chat_id'' (h4 x) else h4 x)"
  proof (cases "rs = []")
    case True
    then show ?thesis by (simp add: setup_chats_empty)
  next
    case False
    from setup_chats_records_cases [OF this, of args4 h4] f show ?thesis by auto
  qed
next
  assume n: "a \<notin> set rs5"
  show "snd (setup_chats (Lst (map DictRef rs5)) (Some a) h5) a = h5 a"
  proof (cases "rs5 = []")
    case True
    then show ?thesis by (simp add: setup_chats_empty)
  next
    case False
    from setup_chats_records_cases [OF this, of "Some a" h5] n show ?thesis by auto
  qed
next
  assume v: "rs6 \<noteq> [] \<and> (\<forall>r\<in>set rs6. truthy (dict_get (h6 r) ''chat_id''))
        \<and> (\<forall>r\<in>set rs6. sort (map fst (h6 r)) = sort (map fst (h6 (hd rs6))))"
  then have ne: "rs6 \<noteq> []" and tr: "\<forall>r\<in>set rs6. truthy (dict_get (h6 r) ''chat_id'')"
    by blast+
  from tr have la: "list_all (\<lambda>r. truthy (dict_get (h6 r) ''chat_id'')) rs6"
    unfolding list_all_iff .
  from v have ck: "chek_identical_keys (map h6 rs6)"
    unfolding chek_identical_keys_iff by blast
  have rt: "record_targets None rs6 h6 =
       (Inl (TypeError ''NoneType object is not a mapping''),
        h6(hd rs6 := AList.delete ''chat_id'' (h6 (hd rs6))))"
    using ne tr by (rule record_targets_None_store)
  show "setup_chats (Lst (map DictRef rs6)) None h6 =
          (Inl (TypeError ''NoneType object is not a mapping''),
           h6(hd rs6 := AList.delete ''chat_id'' (h6 (hd rs6))))"
    using ne la ck rt by (simp add: setup_chats_records)
qed

theorem setup_chats_store_witness:
  "snd (setup_chats (Obj (Val (PInt 1))) (Some 0) record_heap) = record_heap
   \<and> list_all item_is_scalar [Val (PInt 1), Val (PStr ''x'')]
   \<and> snd (setup_chats (Lst [Val (PInt 1), Val (PStr ''x'')]) (Some 0) record_heap) = record_heap
   \<and> fst (setup_chats (Lst (map DictRef [1, 3])) None record_heap) =
        Inl (ValueError ''Not all dictionaries have the \"chat_id\" key'')
   \<and> snd (setup_chats (Lst (map DictRef [1, 3])) None record_heap) = record_heap
   \<and> fst (setup_chats (Lst (map DictRef [1, 2])) None record_heap) =
        Inl (TypeError ''NoneType object is not a mapping'')
   \<and> snd (setup_chats (Lst (map DictRef [1, 2])) None record_heap) =
        record_heap(hd [1, 2] := AList.delete ''chat_id'' (record_heap (hd [1, 2])))
   \<and> ((\<exists>m. TypeError ''NoneType object is not a mapping'' = ValueError m)
        \<or> (\<exists>m. TypeError ''NoneType object is not a mapping'' = TypeError m))
   \<and> snd (setup_chats (Lst (map DictRef [1, 2])) None record_heap) 1 = [(''opt'', PStr ''a'')]
   \<and> snd (setup_chats (Lst (map DictRef [1, 2])) None record_heap) 2 =
        [(''opt'', PStr ''z''), (''chat_id'', PInt 9)]
   \<and> fst (setup_chats (Lst (map DictRef [1, 2])) (Some 0) record_heap) =
        Inr (Some [[(''chat_id'', PInt 5), (''opt'', PStr ''b'')],
                   [(''chat_id'', PInt 9), (''opt'', PStr ''b'')]])
   \<and> snd (setup_chats (Lst (map DictRef [1, 2])) (Some 0) record_heap) =
        (\<lambda>x. if x \<in> set [1, 2] then AList.delete ''chat_id'' (record_heap x) else record_heap x)
   \<and> 0 \<notin> set [1::nat, 2]
   \<and> snd (setup_chats (Lst (map DictRef [1, 2])) (Some 0) record_heap) 0 = record_heap 0
   \<and> [1::nat, 2] \<noteq> []
   \<and> truthy (dict_get (record_heap 1) ''chat_id'')
   \<and> truthy (dict_get (record_heap 2) ''chat_id'')
   \<and> sort (map fst (record_heap 2)) = sort (map fst (record_heap 1))
   \<and> setup_chats (Lst (map DictRef [1, 2])) None record_heap =
        (Inl (TypeError ''NoneType object is not a mapping''),
         record_heap(hd [1, 2] := AList.delete ''chat_id'' (record_heap (hd [1, 2]))))"
proof -
  have k: "list_all item_is_scalar [Val (PInt 1), Val (PStr ''x'')]" by simp
  have f: "fst (setup_chats (Lst (map DictRef [1, 3])) None record_heap) =
        Inl (ValueError ''Not all dictionaries have the \"chat_id\" key'')"
    by (simp add: setup_chats_def record_heap_def dict_get_def)
  have p: "fst (setup_chats (Lst (map DictRef [1, 2])) None record_heap) =
        Inl (TypeError ''NoneType object is not a mapping'')"
    using sort_keys_example
    by (simp add: setup_chats_def record_heap_def dict_get_def
        dict_pop_def unpack_args_def dict_update_def)
  have g: "fst (setup_chats (Lst (map DictRef [1, 2])) (Some 0) record_heap) =
        Inr (Some [[(''chat_id'', PInt 5), (''opt'', PStr ''b'')],
                   [(''chat_id'', PInt 9), (''opt'', PStr ''b'')]])"
    using sort_keys_example
    by (simp add: setup_chats_def record_heap_def dict_get_def
        dict_pop_def unpack_args_def dict_update_def)
  have n: "0 \<notin> set [1::nat, 2]" by simp
  note t = setup_chats_store [where i = "Val (PInt 1)" and args = "Some 0" and h = record_heap
      and xs = "[Val (PInt 1), Val (PStr ''x'')]"
      and ?rs1.0 = "[1, 3]" and ?args1.0 = None and ?h1.0 = record_heap
      and ?m1.0 = "''Not all dictionaries have the \"chat_id\" key''"
      and ?rs2.0 = "[1, 2]" and ?args2.0 = None and ?h2.0 = record_heap
      and ?m2.0 = "''NoneType object is not a mapping''"
      and ?rs3.0 = "[1, 2]" and ?args3.0 = None and ?h3.0 = record_heap
      and e = "TypeError ''NoneType object is not a mapping''"
      and rs = "[1, 2]" and ?args4.0 = "Some 0" and ?h4.0 = record_heap
      and ts = "Some [[(''chat_id'', PInt 5), (''opt'', PStr ''b'')],
                      [(''chat_id'', PInt 9), (''opt'', PStr ''b'')]]"
      and a = 0 and ?rs5.0 = "[1, 2]" and ?h5.0 = record_heap
      and ?rs6.0 = "[1, 2]" and ?h6.0 = record_heap]
  note t1 = t [THEN conjunct1]
  note t2 = t [THEN conjunct2, THEN conjunct1]
  note t3 = t [THEN conjunct2, THEN conjunct2, THEN conjunct1]
  note t4 = t [THEN conjunct2, THEN conjunct2, THEN conjunct2, THEN conjunct1]
  note t5 = t [THEN conjunct2, THEN conjunct2, THEN conjunct2, THEN conjunct2, THEN conjunct1]
  note t6 = t [THEN conjunct2, THEN conjunct2, THEN conjunct2, THEN conjunct2, THEN conjunct2,
      THEN conjunct1]
  note t7 = t [THEN conjunct2, THEN conjunct2, THEN conjunct2, THEN conjunct2, THEN conjunct2,
      THEN conjunct2, THEN conjunct1]
  note t8 = t [THEN conjunct2, THEN conjunct2, THEN conjunct2, THEN conjunct2, THEN conjunct2,
      THEN conjunct2, THEN conjunct2]
  have c1: "snd (setup_chats (Obj (Val (PInt 1))) (Some 0) record_heap) = record_heap"
    by (rule t1)
  have c2: "snd (setup_chats (Lst [Val (PInt 1), Val (PStr ''x'')]) (Some 0) record_heap) = record_heap"
    using k by (intro t2 [THEN mp] disjI1)
  have c3: "snd (setup_chats (Lst (map DictRef [1, 3])) None record_heap) = record_heap"
    by (rule t3 [THEN mp, OF f])
  have c4: "snd (setup_chats (Lst (map DictRef [1, 2])) None record_heap) =
        record_heap(hd [1, 2] := AList.delete ''chat_id'' (record_heap (hd [1, 2])))"
    by (rule t4 [THEN mp, OF p, THEN conjunct2])
  have c4e: "(\<exists>m. TypeError ''NoneType object is not a mapping'' = ValueError m)
        \<or> (\<exists>m. TypeError ''NoneType object is not a mapping'' = TypeError m)"
    by (rule t5 [THEN mp, OF p])
  from c4 have c4a: "snd (setup_chats (Lst (map DictRef [1, 2])) None record_heap) 1 =
        [(''opt'', PStr ''a'')]"
    by (simp add: record_heap_def)
  from c4 have c4b: "snd (setup_chats (Lst (map DictRef [1, 2])) None record_heap) 2 =
        [(''opt'', PStr ''z''), (''chat_id'', PInt 9)]"
    by (simp add: record_heap_def)
  have c5: "snd (setup_chats (Lst (map DictRef [1, 2])) (Some 0) record_heap) =
        (\<lambda>x. if x \<in> set [1, 2] then AList.delete ''chat_id'' (record_heap x) else record_heap x)"
    by (rule t6 [THEN mp, OF g])
  have c6: "snd (setup_chats (Lst (map DictRef [1, 2])) (Some 0) record_heap) 0 = record_heap 0"
    by (rule t7 [THEN mp, OF n])
  have ne: "[1::nat, 2] \<noteq> []" by simp
  have tr: "truthy (dict_get (record_heap 1) ''chat_id'')"
    "truthy (dict_get (record_heap 2) ''chat_id'')"
    by (simp_all add: record_heap_def dict_get_def)
  have k2: "sort (map fst (record_heap 2)) = sort (map fst (record_heap 1))"
    using sort_keys_example by (simp add: record_heap_def)
  have v: "[1::nat, 2] \<noteq> [] \<and> (\<forall>r\<in>set [1, 2]. truthy (dict_get (record_heap r) ''chat_id''))
        \<and> (\<forall>r\<in>set [1, 2]. sort (map fst (record_heap r)) = sort (map fst (record_heap (hd [1, 2]))))"
    using tr k2 by simp
  have c7: "setup_chats (Lst (map DictRef [1, 2])) None record_heap =
        (Inl (TypeError ''NoneType object is not a mapping''),
         record_heap(hd [1, 2] := AList.delete ''chat_id'' (record_heap (hd [1, 2]))))"
    by (rule t8 [THEN mp, OF v])
  from c1 k c2 f c3 p c4 c4e c4a c4b g c5 n c6 ne tr k2 c7 show ?thesis by (intro conjI)
qed

text \<open>
  Claim C7 as stated fails: after the construction from the record
  \<open>{'chat_id': 5, 'opt': 'a'}\<close> the caller's dictionary is \<open>{'opt': 'a'}\<close>.
\<close>

theorem records_mutated_counterexample:
  "fst (setup_chats (Lst [DictRef 1]) (Some 0) record_heap) =
     Inr (Some [[(''chat_id'', PInt 5), (''opt'', PStr ''b'')]])
   \<and> record_heap 1 = [(''chat_id'', PInt 5), (''opt'', PStr ''a'')]
   \<and> snd (setup_chats (Lst [DictRef 1]) (Some 0) record_heap) 1 = [(''opt'', PStr ''a'')]"
  by (simp add: setup_chats_def record_heap_def dict_get_def dict_pop_def unpack_args_def
        dict_update_def)

text \<open>
  Claim C10, as amended. With \<open>args = None\<close> the constructor raises TypeError for a
  scalar identifier and for a non-empty list of scalar identifiers, and it raises some
  exception for a non-empty list of records; for the empty list it raises nothing and the
  new object has no targets, provided the bot is set up.
\<close>

theorem none_args_raise:
  "(cfg_args cfg1 = None \<and> cfg_chats cfg1 = Obj (Val v) \<and> is_scalar v \<longrightarrow>
      fst (init cfg1 current1 new_bot1 oid1 reg1 h1) =
        Inl (TypeError ''NoneType object is not a mapping''))
   \<and> (cfg_args cfg2 = None \<and> cfg_chats cfg2 = Lst xs \<and> xs \<noteq> [] \<and> list_all item_is_scalar xs \<longrightarrow>
      fst (init cfg2 current2 new_bot2 oid2 reg2 h2) =
        Inl (TypeError ''NoneType object is not a mapping''))
   \<and> (cfg_args cfg3 = None \<and> cfg_chats cfg3 = Lst (map DictRef rs) \<and> rs \<noteq> [] \<longrightarrow>
      (\<exists>e. fst (init cfg3 current3 new_bot3 oid3 reg3 h3) = Inl e))
   \<and> (cfg_args cfg4 = None \<and> cfg_chats cfg4 = Lst []
        \<and> setup_bot (cfg_bot cfg4) (cfg_bot_token cfg4) current4 new_bot4 = Inr b \<longrightarrow>
      (\<exists>b'. init cfg4 current4 new_bot4 oid4 reg4 h4 = (Inr b', h4) \<and> chats b' = Some []))"
proof (intro conjI impI)
  assume "cfg_args cfg1 = None \<and> cfg_chats cfg1 = Obj (Val v) \<and> is_scalar v"
  then have "fst (setup_chats (cfg_chats cfg1) (cfg_args cfg1) h1) =
      Inl (TypeError ''NoneType object is not a mapping'')"
    by (simp add: setup_chats_def unpack_args_def)
  then show "fst (init cfg1 current1 new_bot1 oid1 reg1 h1) =
        Inl (TypeError ''NoneType object is not a mapping'')"
    by (rule init_fails)
next
  assume a: "cfg_args cfg2 = None \<and> cfg_chats cfg2 = Lst xs \<and> xs \<noteq> [] \<and> list_all item_is_scalar xs"
  then have "the_vals xs \<noteq> []" using the_vals_scalars [of xs] by auto
  with a have "fst (setup_chats (cfg_chats cfg2) (cfg_args cfg2) h2) =
      Inl (TypeError ''NoneType object is not a mapping'')"
    by (simp add: setup_chats_def scalar_targets_None)
  then show "fst (init cfg2 current2 new_bot2 oid2 reg2 h2) =
        Inl (TypeError ''NoneType object is not a mapping'')"
    by (rule init_fails)
next
  assume a: "cfg_args cfg3 = None \<and> cfg_chats cfg3 = Lst (map DictRef rs) \<and> rs \<noteq> []"
  have "\<exists>e. fst (setup_chats (cfg_chats cfg3) (cfg_args cfg3) h3) = Inl e"
  proof (cases "list_all (\<lambda>r. truthy (dict_get (h3 r) ''chat_id'')) rs
                \<and> chek_identical_keys (map h3 rs)")
    case True
    then have "fst (record_targets None rs h3) = Inl (TypeError ''NoneType object is not a mapping'')"
      using a by (intro record_targets_None) (auto simp: list_all_iff)
    with True a show ?thesis
      by (auto simp: setup_chats_records split: prod.splits sum.splits)
  next
    case False
    with a show ?thesis by (auto simp: setup_chats_records)
  qed
  then show "\<exists>e. fst (init cfg3 current3 new_bot3 oid3 reg3 h3) = Inl e"
    by (auto dest: init_fails)
next
  assume "cfg_args cfg4 = None \<and> cfg_chats cfg4 = Lst []
        \<and> setup_bot (cfg_bot cfg4) (cfg_bot_token cfg4) current4 new_bot4 = Inr b"
  then show "\<exists>b'. init cfg4 current4 new_bot4 oid4 reg4 h4 = (Inr b', h4) \<and> chats b' = Some []"
    by (simp add: init_def setup_chats_empty)
qed

theorem none_args_raise_witness:
  "is_scalar (PInt 1)
   \<and> fst (example_init (Obj (Val (PInt 1))) None empty_heap) =
       Inl (TypeError ''NoneType object is not a mapping'')
   \<and> [Val (PInt 1), Val (PStr ''x'')] \<noteq> []
   \<and> list_all item_is_scalar [Val (PInt 1), Val (PStr ''x'')]
   \<and> fst (example_init (Lst [Val (PInt 1), Val (PStr ''x'')]) None empty_heap) =
       Inl (TypeError ''NoneType object is not a mapping'')
   \<and> [1::nat] \<noteq> []
   \<and> (\<exists>e. fst (example_init (Lst (map DictRef [1])) None record_heap) = Inl e)
   \<and> setup_bot (Some 7) None None (\<lambda>t. Inr 8) = Inr 7
   \<and> (\<exists>b'. example_init (Lst []) None empty_heap = (Inr b', empty_heap) \<and> chats b' = Some [])"
proof -
  have c: "cfg_args (example_config x None) = None" "cfg_chats (example_config x None) = x"
    "cfg_bot (example_config x None) = Some 7" "cfg_bot_token (example_config x None) = None" for x
    by (simp_all add: example_config_def)
  have p1: "is_scalar (PInt 1)" by simp
  have p2: "[Val (PInt 1), Val (PStr ''x'')] \<noteq> []"
    "list_all item_is_scalar [Val (PInt 1), Val (PStr ''x'')]" by simp_all
  have p3: "[1::nat] \<noteq> []" by simp
  have p4: "setup_bot (Some 7) None None (\<lambda>t. Inr 8) = Inr 7" by (simp add: setup_bot_def)
  note t = none_args_raise
      [where ?cfg1.0 = "example_config (Obj (Val (PInt 1))) None" and v = "PInt 1"
         and ?current1.0 = None and ?new_bot1.0 = "\<lambda>t. Inr 8" and ?oid1.0 = 100
         and ?reg1.0 = "[]" and ?h1.0 = empty_heap
         and ?cfg2.0 = "example_config (Lst [Val (PInt 1), Val (PStr ''x'')]) None"
         and xs = "[Val (PInt 1), Val (PStr ''x'')]"
         and ?current2.0 = None and ?new_bot2.0 = "\<lambda>t. Inr 8" and ?oid2.0 = 100
         and ?reg2.0 = "[]" and ?h2.0 = empty_heap
         and ?cfg3.0 = "example_config (Lst (map DictRef [1])) None" and rs = "[1]"
         and ?current3.0 = None and ?new_bot3.0 = "\<lambda>t. Inr 8" and ?oid3.0 = 100
         and ?reg3.0 = "[]" and ?h3.0 = record_heap
         and ?cfg4.0 = "example_config (Lst []) None"
         and ?current4.0 = None and ?new_bot4.0 = "\<lambda>t. Inr 8" and ?oid4.0 = 100
         and ?reg4.0 = "[]" and ?h4.0 = empty_heap and b = 7]
  from t p1 have r1: "fst (example_init (Obj (Val (PInt 1))) None empty_heap) =
       Inl (TypeError ''NoneType object is not a mapping'')"
    by (simp add: c example_init_def)
  from t p2 have r2: "fst (example_init (Lst [Val (PInt 1), Val (PStr ''x'')]) None empty_heap) =
       Inl (TypeError ''NoneType object is not a mapping'')"
    by (simp add: c example_init_def)
  from t have "cfg_args (example_config (Lst (map DictRef [1])) None) = None
         \<and> cfg_chats (example_config (Lst (map DictRef [1])) None) = Lst (map DictRef [1])
         \<and> [1::nat] \<noteq> [] \<longrightarrow>
      (\<exists>e. fst (init (example_config (Lst (map DictRef [1])) None) None (\<lambda>t. Inr 8) 100 []
                 record_heap) = Inl e)"
    by blast
  with p3 have r3: "\<exists>e. fst (example_init (Lst (map DictRef [1])) None record_heap) = Inl e"
    by (simp only: c example_init_def simp_thms)
  from t p4 have r4: "\<exists>b'. example_init (Lst []) None empty_heap = (Inr b', empty_heap)
       \<and> chats b' = Some []"
    by (simp add: c example_init_def)
  from p1 r1 p2 r2 p3 r3 p4 r4 show ?thesis by (intro conjI)
qed

text \<open>
  Claim C10 as stated fails: the empty list is a list of scalar identifiers, and the
  constructor accepts it with \<open>args = None\<close>.
\<close>

theorem empty_list_none_args_counterexample:
  "example_init (Lst []) None empty_heap =
     (Inr (example_broadcaster\<lparr>chats := Some []\<rparr>), empty_heap)"
  by (simp add: example_init_def init_def example_config_def setup_chats_def setup_bot_def
      example_broadcaster_def)

text \<open>
  Claim C3. The code does not do this for a list that mixes scalars and records: for
  \<open>chats = [1, {'chat_id': 5, 'opt': 'a'}]\<close> the constructor returns an object and raises
  nothing; \<open>self.chats\<close> is never assigned, and the AttributeError comes only from
  \<open>run\<close>. An argument that is no list, such as \<open>None\<close>, is rejected with
  AttributeError as the claim says.
\<close>

theorem mixed_list_not_rejected:
  "example_init (Lst [Val (PInt 1), DictRef 1]) (Some 0) record_heap =
     (Inr (example_broadcaster\<lparr>chats := None\<rparr>), record_heap)
   \<and> fst (example_init (Obj (Val PNone)) (Some 0) record_heap) =
       Inl (AttributeError ''argument chats: unexpected type'')
   \<and> fst (run example_send
            \<lparr>self = example_broadcaster\<lparr>chats := None\<rparr>, running = [], world = (), events = []\<rparr>) =
       Inl (AttributeError ''chats'')"
  by (simp add: example_init_def init_def example_config_def setup_chats_def setup_bot_def
      example_broadcaster_def run_def run_begin_def Let_def)

end
